theory Spec2Isabelle
  imports Complex_Main
begin

section \<open>JavaScript strings\<close>

text \<open>
  A JavaScript string is a sequence of UTF-16 code units; \<open>length\<close>, \<open>startsWith\<close>,
  \<open>includes\<close> (here \<open>includes_str\<close>), \<open>split\<close> and the regular expressions of the
  source all work on code units.
  A string is therefore a list of code-unit values. \<open>js\<close> turns an ASCII literal of the
  source into such a list.
\<close>

type_synonym jsstring = "nat list"

definition js :: "string \<Rightarrow> jsstring" where
  "js s = map of_char s"

text \<open>
  The class \<open>\s\<close> of a regular expression and the characters removed by \<open>trim()\<close> are the
  same set: the ECMAScript white space and line terminator code units.
\<close>

definition is_ws :: "nat \<Rightarrow> bool" where
  "is_ws c \<longleftrightarrow>
     c \<in> set [9, 10, 11, 12, 13, 32, 160, 5760, 8232, 8233, 8239, 8287, 12288, 65279]
     \<or> (8192 \<le> c \<and> c \<le> 8202)"

definition is_upper :: "nat \<Rightarrow> bool" where
  "is_upper c \<longleftrightarrow> 65 \<le> c \<and> c \<le> 90"

definition is_lower :: "nat \<Rightarrow> bool" where
  "is_lower c \<longleftrightarrow> 97 \<le> c \<and> c \<le> 122"

definition is_digit :: "nat \<Rightarrow> bool" where
  "is_digit c \<longleftrightarrow> 48 \<le> c \<and> c \<le> 57"

definition is_alnum :: "nat \<Rightarrow> bool" where
  "is_alnum c \<longleftrightarrow> is_upper c \<or> is_lower c \<or> is_digit c"

definition trim :: "jsstring \<Rightarrow> jsstring" where
  "trim s = rev (dropWhile is_ws (rev (dropWhile is_ws s)))"

definition startsWith :: "jsstring \<Rightarrow> jsstring \<Rightarrow> bool" where
  "startsWith s p \<longleftrightarrow> take (length p) s = p"

definition endsWith :: "jsstring \<Rightarrow> jsstring \<Rightarrow> bool" where
  "endsWith s p \<longleftrightarrow> startsWith (rev s) (rev p)"

fun includes_str :: "jsstring \<Rightarrow> jsstring \<Rightarrow> bool" where
  "includes_str [] p = (p = [])"
| "includes_str (c # s) p = (startsWith (c # s) p \<or> includes_str s p)"

text \<open>\<open>content.split('\n')\<close>: the empty string gives one empty line.\<close>

fun split_lines :: "jsstring \<Rightarrow> jsstring list" where
  "split_lines [] = [[]]"
| "split_lines (c # s) =
     (if c = 10 then [] # split_lines s
      else (case split_lines s of l # ls \<Rightarrow> (c # l) # ls | [] \<Rightarrow> [[c]]))"

text \<open>
  \<open>s.replace(/\s+/g, '_')\<close> replaces every maximal run of white space by one underscore.
  The function is written for any class of characters \<open>P\<close> and any separator, so that the
  same scan can be read with another class.
\<close>

function replace_runs :: "(nat \<Rightarrow> bool) \<Rightarrow> nat \<Rightarrow> jsstring \<Rightarrow> jsstring" where
  "replace_runs P sep [] = []"
| "replace_runs P sep (c # s) =
     (if P c then sep # replace_runs P sep (dropWhile P s)
      else c # replace_runs P sep s)"
  by pat_completeness auto
termination
  by (relation "measure (\<lambda>(P, sep, s). length s)")
     (auto simp: le_imp_less_Suc length_dropWhile_le)

text \<open>
  Matching with the flag \<open>i\<close> (and without the flag \<open>u\<close>) compares canonicalised code units.
  A code unit of 128 or more is never canonicalised to an ASCII one, so against the ASCII
  letters of a pattern only the ASCII letters of the input are folded.
\<close>

definition ascii_upper :: "nat \<Rightarrow> nat" where
  "ascii_upper c = (if is_lower c then c - 32 else c)"

definition ascii_lower :: "nat \<Rightarrow> nat" where
  "ascii_lower c = (if is_upper c then c + 32 else c)"

section \<open>Data model (services/geminiService.ts)\<close>

record Job =
  title :: jsstring
  company :: jsstring
  location :: jsstring
  postedAt :: jsstring
  link :: jsstring
  description :: jsstring
  source :: jsstring
  isEasyApply :: bool
  contactEmail :: "jsstring option"

record ResumeAnalysis =
  skills :: "jsstring list"
  experienceLevel :: jsstring
  suggestedRoles :: "jsstring list"
  summary :: jsstring
  location :: "jsstring option"
  experience :: jsstring
  education :: jsstring
  projects :: jsstring

record tailored =
  tailoredResume :: jsstring
  coverLetter :: jsstring

record mail_content =
  subject :: jsstring
  body :: jsstring

section \<open>The platform\<close>

text \<open>
  What the program takes from its runtime and from jsPDF, and what is not in the repository:
  the Unicode case mappings \<open>toLowerCase\<close> and \<open>toUpperCase\<close>, the width of a page
  (\<open>doc.internal.pageSize.getWidth()\<close>) and the line breaking of \<open>doc.splitTextToSize\<close>,
  which depends on the font set before the call. They are parameters of the model.
\<close>

datatype style = HeaderStyle | BulletStyle | SubHeaderStyle | BodyStyle

record platform =
  toLowerCase :: "jsstring \<Rightarrow> jsstring"
  toUpperCase :: "jsstring \<Rightarrow> jsstring"
  pageWidth :: rat
  splitTextToSize :: "style \<Rightarrow> jsstring \<Rightarrow> rat \<Rightarrow> jsstring list"

text \<open>
  A platform to evaluate the model on: an A4 page, case mappings that act on ASCII letters,
  and text short enough never to be wrapped.
\<close>

definition plain_platform :: platform where
  "plain_platform =
     \<lparr>toLowerCase = map ascii_lower, toUpperCase = map ascii_upper, pageWidth = 210,
      splitTextToSize = (\<lambda>st t w. [t])\<rparr>"

section \<open>The gateway (services/geminiService.ts)\<close>

text \<open>
  \<open>ai.models.generateContent\<close> either rejects or resolves with a response. Where the source
  applies \<open>JSON.parse\<close> to the text of the response, or to the literal it puts in the place
  of an empty text, the parse either throws or gives a value; the value has the shape of
  the response schema sent with the request, which is also the declared type of the result.
\<close>

datatype 'a gateway = Rejects | Resolves 'a

datatype 'a JSON_parse = SyntaxError | Value 'a

datatype 'a promise = Rejected | Fulfilled 'a

text \<open>
  \<open>analyzeResume\<close>: the skills of the parsed result are filtered against the text that was
  sent. The guard \<open>result.skills && Array.isArray(result.skills)\<close> holds for every value
  of type \<open>ResumeAnalysis\<close>.
\<close>

definition analyzeResume ::
  "platform \<Rightarrow> jsstring \<Rightarrow> ResumeAnalysis JSON_parse gateway \<Rightarrow> ResumeAnalysis promise" where
  "analyzeResume P resumeText reply =
     (case reply of
        Rejects \<Rightarrow> Rejected
      | Resolves SyntaxError \<Rightarrow> Rejected
      | Resolves (Value result) \<Rightarrow>
          (let lowerResume = toLowerCase P resumeText
           in Fulfilled (result\<lparr>skills :=
                filter (\<lambda>skill. includes_str lowerResume (toLowerCase P skill)) (skills result)\<rparr>)))"

text \<open>\<open>structureResume\<close>: \<open>response.text || rawText\<close>; the text of a response may be undefined.\<close>

definition structureResume :: "jsstring \<Rightarrow> jsstring option gateway \<Rightarrow> jsstring promise" where
  "structureResume rawText reply =
     (case reply of
        Rejects \<Rightarrow> Rejected
      | Resolves None \<Rightarrow> Fulfilled rawText
      | Resolves (Some t) \<Rightarrow> Fulfilled (if t = [] then rawText else t))"

text \<open>\<open>searchJobs\<close>: a parse error is caught and gives the empty list.\<close>

definition searchJobs :: "Job list JSON_parse gateway \<Rightarrow> Job list promise" where
  "searchJobs reply =
     (case reply of
        Rejects \<Rightarrow> Rejected
      | Resolves SyntaxError \<Rightarrow> Fulfilled []
      | Resolves (Value found) \<Rightarrow> Fulfilled found)"

definition generateTailoredContent :: "tailored JSON_parse gateway \<Rightarrow> tailored promise" where
  "generateTailoredContent reply =
     (case reply of
        Rejects \<Rightarrow> Rejected
      | Resolves SyntaxError \<Rightarrow> Rejected
      | Resolves (Value r) \<Rightarrow> Fulfilled r)"

definition generateEmailContent :: "mail_content JSON_parse gateway \<Rightarrow> mail_content promise" where
  "generateEmailContent reply =
     (case reply of
        Rejects \<Rightarrow> Rejected
      | Resolves SyntaxError \<Rightarrow> Rejected
      | Resolves (Value r) \<Rightarrow> Fulfilled r)"

section \<open>The document renderer (downloadAsPDF in App.tsx)\<close>

text \<open>
  The document is the list of the drawing calls made on it, in order. The font, size and
  colour set before a text are kept as the \<open>style\<close> of that text. The vertical cursor \<open>y\<close>
  only ever takes values that are multiples of one half, which the numbers of JavaScript
  represent exactly, so it is a rational here.
\<close>

datatype pdf_op =
    Text style "jsstring list" rat rat
  | Line rat rat rat rat
  | AddPage

definition margin :: rat where
  "margin = 20"

definition header_keywords :: "jsstring list" where
  "header_keywords =
     [js ''EXPERIENCE'', js ''EDUCATION'', js ''SKILLS'', js ''PROJECTS'', js ''SUMMARY'',
      js ''CONTACT'', js ''WORK HISTORY'']"

definition isHeader :: "jsstring \<Rightarrow> bool" where
  "isHeader trimmedLine \<longleftrightarrow>
     (3 \<le> length trimmedLine \<and> list_all (\<lambda>c. is_upper c \<or> is_ws c) trimmedLine)
     \<or> list_ex (\<lambda>k. map ascii_upper (take (length k) trimmedLine) = k) header_keywords
     \<or> startsWith trimmedLine (js ''#'')"

definition isBullet :: "jsstring \<Rightarrow> bool" where
  "isBullet trimmedLine \<longleftrightarrow>
     startsWith trimmedLine [8226] \<or> startsWith trimmedLine (js ''-'')
     \<or> startsWith trimmedLine (js ''*'')"

text \<open>
  \<open>/^[A-Za-z0-9\s&,.-]+(\s\|\s|\s\s\s)[A-Za-z0-9\s,.-]+$/\<close>: the line splits into a non-empty
  part of the first class, a separator of three characters and a non-empty part of the
  second class.
\<close>

definition sub_left :: "nat \<Rightarrow> bool" where
  "sub_left c \<longleftrightarrow> is_alnum c \<or> is_ws c \<or> c \<in> set [38, 44, 46, 45]"

definition sub_right :: "nat \<Rightarrow> bool" where
  "sub_right c \<longleftrightarrow> is_alnum c \<or> is_ws c \<or> c \<in> set [44, 46, 45]"

definition sub_separator :: "jsstring \<Rightarrow> bool" where
  "sub_separator m \<longleftrightarrow>
     (case m of
        [a, b, c] \<Rightarrow> is_ws a \<and> (b = 124 \<or> is_ws b) \<and> is_ws c
      | _ \<Rightarrow> False)"

definition sub_pattern :: "jsstring \<Rightarrow> bool" where
  "sub_pattern s \<longleftrightarrow>
     list_ex (\<lambda>i. list_all sub_left (take i s) \<and> sub_separator (take 3 (drop i s))
                 \<and> drop (i + 3) s \<noteq> [] \<and> list_all sub_right (drop (i + 3) s))
       [1 ..< length s]"

definition isSubHeader :: "jsstring \<Rightarrow> bool" where
  "isSubHeader trimmedLine \<longleftrightarrow>
     sub_pattern trimmedLine
     \<or> (length trimmedLine < 50
        \<and> (includes_str trimmedLine (js ''20'') \<or> includes_str trimmedLine (js ''Present'')))"

text \<open>\<open>replace(/^#\s*/, '')\<close> and \<open>replace(/^[\<bullet>\-*]\s*/, '')\<close>.\<close>

definition strip_hash :: "jsstring \<Rightarrow> jsstring" where
  "strip_hash s = (case s of [] \<Rightarrow> [] | c # r \<Rightarrow> if c = 35 then dropWhile is_ws r else s)"

definition strip_bullet :: "jsstring \<Rightarrow> jsstring" where
  "strip_bullet s =
     (case s of [] \<Rightarrow> [] | c # r \<Rightarrow> if c \<in> set [8226, 45, 42] then dropWhile is_ws r else s)"

text \<open>The body of \<open>lines.forEach\<close>: the cursor and the document before, and after.\<close>

definition render_line :: "platform \<Rightarrow> rat \<times> pdf_op list \<Rightarrow> jsstring \<Rightarrow> rat \<times> pdf_op list" where
  "render_line P st line =
     (let y = fst st; doc = snd st; trimmedLine = trim line in
      if trimmedLine = [] then (y + 4, doc)
      else if isHeader trimmedLine then
        (let headerText = toUpperCase P (strip_hash trimmedLine);
             y1 = (if y > 20 then y + 6 else y);
             y2 = y1 + 2
         in (y2 + 5,
             doc @ [Text HeaderStyle [headerText] margin y1,
                    Line margin y2 (pageWidth P - margin) y2]))
      else if isBullet trimmedLine then
        (let bulletText = strip_bullet trimmedLine;
             splitText = splitTextToSize P BulletStyle bulletText (pageWidth P - margin * 2 - 5)
         in (y + of_nat (length splitText) * (11 / 2),
             doc @ [Text BulletStyle [[8226]] (margin + 2) y,
                    Text BulletStyle splitText (margin + 7) y]))
      else
        (let st = (if isSubHeader trimmedLine then SubHeaderStyle else BodyStyle);
             splitText = splitTextToSize P st trimmedLine (pageWidth P - margin * 2);
             overflow = (y + of_nat (length splitText) * 5 > 275);
             y1 = (if overflow then 20 else y)
         in (y1 + of_nat (length splitText) * (11 / 2),
             doc @ (if overflow then [AddPage] else []) @ [Text st splitText margin y1])))"

text \<open>The loop of \<open>downloadAsPDF\<close>: the last cursor and the document that is saved.\<close>

definition render :: "platform \<Rightarrow> jsstring \<Rightarrow> rat \<times> pdf_op list" where
  "render P content = foldl (render_line P) (20, []) (split_lines content)"

section \<open>The state of the application (App.tsx)\<close>

datatype time_filter = T24h | T48h | T72h

datatype job_type = All | Onsite | Hybrid | Remote

datatype kind = Resume | CoverLetter

definition kind_name :: "kind \<Rightarrow> jsstring" where
  "kind_name k = (case k of Resume \<Rightarrow> js ''resume'' | CoverLetter \<Rightarrow> js ''coverLetter'')"

record emailOptions_t =
  attachTailoredResume :: bool
  attachTailoredCoverLetter :: bool
  generateMailContent :: bool
  attachUploadedResume :: bool

record File =
  name :: jsstring
  decoded :: jsstring

text \<open>
  An asynchronous handler is suspended at each \<open>await\<close> of a gateway call. A task is such a
  suspended handler, with the values its continuation has closed over.
\<close>

datatype task =
    Extracting time_filter job_type
  | Structuring jsstring time_filter job_type
  | Analyzing jsstring time_filter job_type
  | Searching ResumeAnalysis time_filter job_type
  | Tailoring Job kind
  | MailComposing Job emailOptions_t jsstring
  | MailTailoring Job emailOptions_t jsstring jsstring jsstring

datatype reply =
    Extracted "jsstring gateway"
  | Structured "jsstring option gateway"
  | Analyzed "ResumeAnalysis JSON_parse gateway"
  | Searched "Job list JSON_parse gateway"
  | Tailored "tailored JSON_parse gateway"
  | Composed "mail_content JSON_parse gateway"

text \<open>
  The state cells of the component, in the order of their \<open>useState\<close> declarations, and
  after them what lies outside React: \<open>memo_jobType\<close>, the job type seen by the memoised
  \<open>onDrop\<close> (\<open>useCallback\<close> renews the callback only when \<open>timeFilter\<close> changes); the tasks
  awaiting the gateway, oldest first; the files saved by \<open>doc.save\<close>; and the mail link
  last assigned to \<open>window.location.href\<close>.
\<close>

record state =
  resumeText :: jsstring
  isAnalyzing :: bool
  isSearching :: bool
  isGenerating :: "jsstring option"
  analysis :: "ResumeAnalysis option"
  jobs :: "Job list"
  expandedJobs :: "nat set"
  timeFilter :: time_filter
  jobType :: job_type
  newSkill :: jsstring
  newSkillInModal :: jsstring
  isEditModalOpen :: bool
  editDraft :: "ResumeAnalysis option"
  history :: "ResumeAnalysis list"
  emailModalJob :: "Job option"
  emailOptions :: emailOptions_t
  isSendingMail :: bool
  error :: "jsstring option"
  memo_jobType :: job_type
  pending :: "task list"
  saved :: "(jsstring \<times> pdf_op list) list"
  href :: "jsstring option"

definition init :: state where
  "init =
     \<lparr>resumeText = [], isAnalyzing = False, isSearching = False, isGenerating = None,
      analysis = None, jobs = [], expandedJobs = {}, timeFilter = T24h, jobType = All,
      newSkill = [], newSkillInModal = [], isEditModalOpen = False, editDraft = None,
      history = [], emailModalJob = None,
      emailOptions = \<lparr>attachTailoredResume = True, attachTailoredCoverLetter = True,
                       generateMailContent = True, attachUploadedResume = False\<rparr>,
      isSendingMail = False, error = None, memo_jobType = All, pending = [], saved = [],
      href = None\<rparr>"

definition await :: "task \<Rightarrow> state \<Rightarrow> state" where
  "await t s = s\<lparr>pending := pending s @ [t]\<rparr>"

definition downloadAsPDF :: "platform \<Rightarrow> jsstring \<Rightarrow> jsstring \<Rightarrow> state \<Rightarrow> state" where
  "downloadAsPDF P content filename s =
     s\<lparr>saved := saved s @ [(filename, snd (render P content))]\<rparr>"

subsection \<open>Job search\<close>

definition handleSearch :: "ResumeAnalysis \<Rightarrow> time_filter \<Rightarrow> job_type \<Rightarrow> state \<Rightarrow> state" where
  "handleSearch currentAnalysis filter_v type_v s =
     await (Searching currentAnalysis filter_v type_v) (s\<lparr>isSearching := True, error := None\<rparr>)"

definition handleSearch_settled :: "Job list promise \<Rightarrow> state \<Rightarrow> state" where
  "handleSearch_settled r s =
     (case r of
        Fulfilled results \<Rightarrow> s\<lparr>jobs := results, isSearching := False\<rparr>
      | Rejected \<Rightarrow>
          s\<lparr>error := Some (js ''Failed to fetch jobs. Please try again.''),
            isSearching := False\<rparr>)"

definition changeFilter :: "time_filter \<Rightarrow> state \<Rightarrow> state" where
  "changeFilter newFilter s =
     (let s1 = s\<lparr>timeFilter := newFilter,
                  memo_jobType := (if newFilter = timeFilter s then memo_jobType s else jobType s)\<rparr>
      in case analysis s of
           None \<Rightarrow> s1
         | Some a \<Rightarrow> handleSearch a newFilter (jobType s) s1)"

definition changeJobType :: "job_type \<Rightarrow> state \<Rightarrow> state" where
  "changeJobType newType s =
     (let s1 = s\<lparr>jobType := newType\<rparr>
      in case analysis s of
           None \<Rightarrow> s1
         | Some a \<Rightarrow> handleSearch a (timeFilter s) newType s1)"

subsection \<open>Upload\<close>

definition upload_failed :: "state \<Rightarrow> state" where
  "upload_failed s =
     s\<lparr>error := Some (js
          ''Failed to process resume. Please try a different format or a .txt file.''),
       isAnalyzing := False\<rparr>"

definition onDrop_raw :: "jsstring \<Rightarrow> time_filter \<Rightarrow> job_type \<Rightarrow> state \<Rightarrow> state" where
  "onDrop_raw rawText tf jt s =
     (if trim rawText = [] then upload_failed s else await (Structuring rawText tf jt) s)"

definition onDrop :: "File list \<Rightarrow> state \<Rightarrow> state" where
  "onDrop acceptedFiles s =
     (case acceptedFiles of
        [] \<Rightarrow> s
      | file # _ \<Rightarrow>
          (let s1 = s\<lparr>isAnalyzing := True, error := None\<rparr> in
           if endsWith (name file) (js ''.docx'')
           then await (Extracting (timeFilter s) (memo_jobType s)) s1
           else onDrop_raw (decoded file) (timeFilter s) (memo_jobType s) s1))"

definition onDrop_extracted ::
  "time_filter \<Rightarrow> job_type \<Rightarrow> jsstring gateway \<Rightarrow> state \<Rightarrow> state" where
  "onDrop_extracted tf jt r s =
     (case r of Rejects \<Rightarrow> upload_failed s | Resolves rawText \<Rightarrow> onDrop_raw rawText tf jt s)"

definition onDrop_structured ::
  "time_filter \<Rightarrow> job_type \<Rightarrow> jsstring promise \<Rightarrow> state \<Rightarrow> state" where
  "onDrop_structured tf jt r s =
     (case r of
        Rejected \<Rightarrow> upload_failed s
      | Fulfilled structuredText \<Rightarrow>
          await (Analyzing structuredText tf jt) (s\<lparr>resumeText := structuredText\<rparr>))"

definition onDrop_analyzed ::
  "time_filter \<Rightarrow> job_type \<Rightarrow> ResumeAnalysis promise \<Rightarrow> state \<Rightarrow> state" where
  "onDrop_analyzed tf jt r s =
     (case r of
        Rejected \<Rightarrow> upload_failed s
      | Fulfilled result \<Rightarrow>
          (handleSearch result tf jt (s\<lparr>analysis := Some result\<rparr>))\<lparr>isAnalyzing := False\<rparr>)"

text \<open>The button "Upload New".\<close>

definition upload_new :: "state \<Rightarrow> state" where
  "upload_new s = s\<lparr>analysis := None, jobs := [], resumeText := []\<rparr>"

subsection \<open>Skills and the edit session\<close>

text \<open>\<open>[...new Set(xs)]\<close>: the elements in the order of their first insertion.\<close>

fun Set_add_all :: "'a list \<Rightarrow> 'a list \<Rightarrow> 'a list" where
  "Set_add_all seen [] = seen"
| "Set_add_all seen (x # xs) = Set_add_all (if x \<in> set seen then seen else seen @ [x]) xs"

definition Set_spread :: "'a list \<Rightarrow> 'a list" where
  "Set_spread xs = Set_add_all [] xs"

definition handleAddSkill :: "state \<Rightarrow> state" where
  "handleAddSkill s =
     (case analysis s of
        None \<Rightarrow> s
      | Some a \<Rightarrow>
          if trim (newSkill s) = [] then s
          else
            (let updatedAnalysis = a\<lparr>skills := Set_spread (skills a @ [trim (newSkill s)])\<rparr>
             in handleSearch updatedAnalysis (timeFilter s) (jobType s)
                  (s\<lparr>analysis := Some updatedAnalysis, newSkill := []\<rparr>)))"

definition handleRemoveSkill :: "jsstring \<Rightarrow> state \<Rightarrow> state" where
  "handleRemoveSkill skillToRemove s =
     (case analysis s of
        None \<Rightarrow> s
      | Some a \<Rightarrow>
          (let updatedAnalysis = a\<lparr>skills := filter (\<lambda>x. x \<noteq> skillToRemove) (skills a)\<rparr>
           in handleSearch updatedAnalysis (timeFilter s) (jobType s)
                (s\<lparr>analysis := Some updatedAnalysis\<rparr>)))"

definition openEditModal :: "state \<Rightarrow> state" where
  "openEditModal s =
     (case analysis s of
        None \<Rightarrow> s
      | Some a \<Rightarrow> s\<lparr>editDraft := Some a, history := [a], isEditModalOpen := True\<rparr>)"

datatype field_value =
    Skills "jsstring list"
  | ExperienceLevel jsstring
  | SuggestedRoles "jsstring list"
  | Summary jsstring
  | Location "jsstring option"
  | Experience jsstring
  | Education jsstring
  | Projects jsstring

definition set_field :: "field_value \<Rightarrow> ResumeAnalysis \<Rightarrow> ResumeAnalysis" where
  "set_field fv d =
     (case fv of
        Skills v \<Rightarrow> d\<lparr>skills := v\<rparr>
      | ExperienceLevel v \<Rightarrow> d\<lparr>experienceLevel := v\<rparr>
      | SuggestedRoles v \<Rightarrow> d\<lparr>suggestedRoles := v\<rparr>
      | Summary v \<Rightarrow> d\<lparr>summary := v\<rparr>
      | Location v \<Rightarrow> d\<lparr>ResumeAnalysis.location := v\<rparr>
      | Experience v \<Rightarrow> d\<lparr>experience := v\<rparr>
      | Education v \<Rightarrow> d\<lparr>education := v\<rparr>
      | Projects v \<Rightarrow> d\<lparr>projects := v\<rparr>)"

definition handleUpdateDraft :: "field_value \<Rightarrow> state \<Rightarrow> state" where
  "handleUpdateDraft fv s =
     (case editDraft s of None \<Rightarrow> s | Some d \<Rightarrow> s\<lparr>editDraft := Some (set_field fv d)\<rparr>)"

definition saveField :: "state \<Rightarrow> state" where
  "saveField s =
     (case editDraft s of None \<Rightarrow> s | Some d \<Rightarrow> s\<lparr>history := history s @ [d]\<rparr>)"

definition undoField :: "state \<Rightarrow> state" where
  "undoField s =
     (if length (history s) > 1
      then s\<lparr>editDraft := Some (history s ! (length (history s) - 2)),
             history := butlast (history s)\<rparr>
      else s)"

definition handleRefineSearch :: "state \<Rightarrow> state" where
  "handleRefineSearch s =
     (case editDraft s of
        None \<Rightarrow> s
      | Some d \<Rightarrow>
          handleSearch d (timeFilter s) (jobType s)
            (s\<lparr>analysis := Some d, isEditModalOpen := False\<rparr>))"

text \<open>The two inline handlers of the skill input of the edit modal.\<close>

definition addSkillInModal :: "state \<Rightarrow> state" where
  "addSkillInModal s =
     (case editDraft s of
        None \<Rightarrow> s
      | Some d \<Rightarrow>
          if trim (newSkillInModal s) = [] then s
          else (handleUpdateDraft
                  (Skills (Set_spread (skills d @ [trim (newSkillInModal s)]))) s)
               \<lparr>newSkillInModal := []\<rparr>)"

definition toggleJobExpansion :: "nat \<Rightarrow> state \<Rightarrow> state" where
  "toggleJobExpansion index s =
     s\<lparr>expandedJobs :=
         (if index \<in> expandedJobs s then expandedJobs s - {index}
          else insert index (expandedJobs s))\<rparr>"

subsection \<open>Tailoring\<close>

definition handleGenerateTailored :: "Job \<Rightarrow> kind \<Rightarrow> state \<Rightarrow> state" where
  "handleGenerateTailored job type_v s =
     await (Tailoring job type_v)
       (s\<lparr>isGenerating := Some (link job @ js ''-'' @ kind_name type_v)\<rparr>)"

definition handleGenerateTailored_settled ::
  "platform \<Rightarrow> Job \<Rightarrow> kind \<Rightarrow> tailored promise \<Rightarrow> state \<Rightarrow> state" where
  "handleGenerateTailored_settled P job type_v r s =
     (case r of
        Fulfilled t \<Rightarrow>
          (if type_v = Resume
           then downloadAsPDF P (tailoredResume t)
                  (js ''Tailored_Resume_'' @ replace_runs is_ws 95 (company job) @ js ''.pdf'') s
           else downloadAsPDF P (coverLetter t)
                  (js ''Cover_Letter_'' @ replace_runs is_ws 95 (company job) @ js ''.pdf'') s)
      | Rejected \<Rightarrow>
          s\<lparr>error := Some (js ''Failed to generate tailored '' @ kind_name type_v @ js ''.'')\<rparr>)
     \<lparr>isGenerating := None\<rparr>"

subsection \<open>The application email\<close>

text \<open>
  \<open>encodeURIComponent\<close>: UTF-8 and percent-encoding of everything but the unreserved
  characters; a lone surrogate raises \<open>URIError\<close> (\<open>None\<close>).
\<close>

definition hex_digit :: "nat \<Rightarrow> nat" where
  "hex_digit n = (if n < 10 then 48 + n else 55 + n)"

definition percent :: "nat \<Rightarrow> jsstring" where
  "percent b = [37, hex_digit (b div 16), hex_digit (b mod 16)]"

definition utf8 :: "nat \<Rightarrow> nat list" where
  "utf8 cp =
     (if cp < 128 then [cp]
      else if cp < 2048 then [192 + cp div 64, 128 + cp mod 64]
      else if cp < 65536 then [224 + cp div 4096, 128 + (cp div 64) mod 64, 128 + cp mod 64]
      else [240 + cp div 262144, 128 + (cp div 4096) mod 64, 128 + (cp div 64) mod 64,
            128 + cp mod 64])"

definition uri_unreserved :: "nat \<Rightarrow> bool" where
  "uri_unreserved c \<longleftrightarrow> is_alnum c \<or> c \<in> set [45, 95, 46, 33, 126, 42, 39, 40, 41]"

definition high_surrogate :: "nat \<Rightarrow> bool" where
  "high_surrogate c \<longleftrightarrow> 55296 \<le> c \<and> c \<le> 56319"

definition low_surrogate :: "nat \<Rightarrow> bool" where
  "low_surrogate c \<longleftrightarrow> 56320 \<le> c \<and> c \<le> 57343"

fun encodeURIComponent :: "jsstring \<Rightarrow> jsstring option" where
  "encodeURIComponent [] = Some []"
| "encodeURIComponent (c # s) =
     (if uri_unreserved c then map_option ((#) c) (encodeURIComponent s)
      else if low_surrogate c then None
      else if high_surrogate c then
        (case s of
           [] \<Rightarrow> None
         | d # s' \<Rightarrow>
             if low_surrogate d
             then map_option
                    ((@) (concat (map percent
                            (utf8 ((c - 55296) * 1024 + (d - 56320) + 65536)))))
                    (encodeURIComponent s')
             else None)
      else map_option ((@) (concat (map percent (utf8 c)))) (encodeURIComponent s))"

definition email_failed :: "state \<Rightarrow> state" where
  "email_failed s =
     s\<lparr>error := Some (js ''Failed to prepare email application.''), isSendingMail := False\<rparr>"

text \<open>
  The end of \<open>handleSendMail\<close>, from the test of \<open>attachUploadedResume\<close> on. A contact
  address that is absent is printed by the template as \<open>undefined\<close>.
\<close>

definition handleSendMail_finish ::
  "platform \<Rightarrow> Job \<Rightarrow> emailOptions_t \<Rightarrow> jsstring \<Rightarrow> jsstring \<Rightarrow> jsstring \<Rightarrow> jsstring \<Rightarrow>
   state \<Rightarrow> state" where
  "handleSendMail_finish P job opts text subject_v body_v info s =
     (let info1 = (if attachUploadedResume opts
                   then info @ [10] @ js ''- Original Uploaded Resume (PDF Generated)''
                   else info);
          s1 = (if attachUploadedResume opts
                then downloadAsPDF P text (js ''Original_Resume.pdf'') s else s)
      in case (encodeURIComponent subject_v, encodeURIComponent (body_v @ info1)) of
           (Some es, Some eb) \<Rightarrow>
             s1\<lparr>href := Some (js ''mailto:''
                    @ (case contactEmail job of None \<Rightarrow> js ''undefined'' | Some e \<Rightarrow> e)
                    @ js ''?subject='' @ es @ js ''&body='' @ eb),
                emailModalJob := None, isSendingMail := False\<rparr>
         | _ \<Rightarrow> email_failed s1)"

definition attachmentsInfo :: jsstring where
  "attachmentsInfo =
     [10, 10] @ js ''--- Attachments Prepared (Please attach these files manually) ---''"

text \<open>The part between the mail content and the end: the tailoring call, if one is made.\<close>

definition handleSendMail_attach ::
  "platform \<Rightarrow> Job \<Rightarrow> emailOptions_t \<Rightarrow> jsstring \<Rightarrow> jsstring \<Rightarrow> jsstring \<Rightarrow> state \<Rightarrow> state" where
  "handleSendMail_attach P job opts text subject_v body_v s =
     (if attachTailoredResume opts \<or> attachTailoredCoverLetter opts
      then await (MailTailoring job opts text subject_v body_v) s
      else handleSendMail_finish P job opts text subject_v body_v attachmentsInfo s)"

definition handleSendMail_tailored ::
  "platform \<Rightarrow> Job \<Rightarrow> emailOptions_t \<Rightarrow> jsstring \<Rightarrow> jsstring \<Rightarrow> jsstring \<Rightarrow> tailored promise \<Rightarrow>
   state \<Rightarrow> state" where
  "handleSendMail_tailored P job opts text subject_v body_v r s =
     (case r of
        Rejected \<Rightarrow> email_failed s
      | Fulfilled t \<Rightarrow>
          (let info1 = (if attachTailoredResume opts
                        then attachmentsInfo @ [10] @ js ''- Tailored Resume (PDF Generated)''
                        else attachmentsInfo);
               s1 = (if attachTailoredResume opts
                     then downloadAsPDF P (tailoredResume t)
                            (js ''Tailored_Resume_'' @ company job @ js ''.pdf'') s
                     else s);
               info2 = (if attachTailoredCoverLetter opts
                        then info1 @ [10] @ js ''- Tailored Cover Letter (PDF Generated)''
                        else info1);
               s2 = (if attachTailoredCoverLetter opts
                     then downloadAsPDF P (coverLetter t)
                            (js ''Cover_Letter_'' @ company job @ js ''.pdf'') s1
                     else s1)
           in handleSendMail_finish P job opts text subject_v body_v info2 s2))"

definition handleSendMail_composed ::
  "platform \<Rightarrow> Job \<Rightarrow> emailOptions_t \<Rightarrow> jsstring \<Rightarrow> mail_content promise \<Rightarrow> state \<Rightarrow> state" where
  "handleSendMail_composed P job opts text r s =
     (case r of
        Rejected \<Rightarrow> email_failed s
      | Fulfilled content \<Rightarrow>
          handleSendMail_attach P job opts text (subject content) (body content) s)"

definition handleSendMail :: "platform \<Rightarrow> state \<Rightarrow> state" where
  "handleSendMail P s =
     (case emailModalJob s of
        None \<Rightarrow> s
      | Some job \<Rightarrow>
          (let s1 = s\<lparr>isSendingMail := True\<rparr> in
           if generateMailContent (emailOptions s)
           then await (MailComposing job (emailOptions s) (resumeText s)) s1
           else handleSendMail_attach P job (emailOptions s) (resumeText s)
                  (js ''Application for '' @ title job @ js '' at '' @ company job)
                  (js ''Hi '' @ company job @ js '' Team,'' @ [10, 10]
                   @ js ''I am interested in the '' @ title job @ js '' position.'')
                  s1))"

datatype option_id =
  AttachTailoredResume | AttachTailoredCoverLetter | GenerateMailContent | AttachUploadedResume

definition toggle_option :: "option_id \<Rightarrow> emailOptions_t \<Rightarrow> emailOptions_t" where
  "toggle_option i prev =
     (case i of
        AttachTailoredResume \<Rightarrow> prev\<lparr>attachTailoredResume := \<not> attachTailoredResume prev\<rparr>
      | AttachTailoredCoverLetter \<Rightarrow>
          prev\<lparr>attachTailoredCoverLetter := \<not> attachTailoredCoverLetter prev\<rparr>
      | GenerateMailContent \<Rightarrow> prev\<lparr>generateMailContent := \<not> generateMailContent prev\<rparr>
      | AttachUploadedResume \<Rightarrow> prev\<lparr>attachUploadedResume := \<not> attachUploadedResume prev\<rparr>)"

subsection \<open>Events\<close>

text \<open>
  A task is resumed by the reply to the call it awaits. A reply of another call than the
  one awaited does not occur; it is \<open>None\<close> here.
\<close>

definition resume :: "platform \<Rightarrow> task \<Rightarrow> reply \<Rightarrow> state \<Rightarrow> state option" where
  "resume P t r s =
     (case (t, r) of
        (Extracting tf jt, Extracted g) \<Rightarrow> Some (onDrop_extracted tf jt g s)
      | (Structuring rawText tf jt, Structured g) \<Rightarrow>
          Some (onDrop_structured tf jt (structureResume rawText g) s)
      | (Analyzing structuredText tf jt, Analyzed g) \<Rightarrow>
          Some (onDrop_analyzed tf jt (analyzeResume P structuredText g) s)
      | (Searching a tf jt, Searched g) \<Rightarrow> Some (handleSearch_settled (searchJobs g) s)
      | (Tailoring job k, Tailored g) \<Rightarrow>
          Some (handleGenerateTailored_settled P job k (generateTailoredContent g) s)
      | (MailComposing job opts text, Composed g) \<Rightarrow>
          Some (handleSendMail_composed P job opts text (generateEmailContent g) s)
      | (MailTailoring job opts text sb bd, Tailored g) \<Rightarrow>
          Some (handleSendMail_tailored P job opts text sb bd (generateTailoredContent g) s)
      | _ \<Rightarrow> None)"

definition settle :: "platform \<Rightarrow> nat \<Rightarrow> reply \<Rightarrow> state \<Rightarrow> state" where
  "settle P i r s =
     (if i < length (pending s)
      then (case resume P (pending s ! i) r
                   (s\<lparr>pending := take i (pending s) @ drop (Suc i) (pending s)\<rparr>) of
              None \<Rightarrow> s
            | Some s' \<Rightarrow> s')
      else s)"

text \<open>
  The events of the interface. A control that is not rendered, or is disabled, cannot be
  used: the drop zone is rendered while there is no analysis, the dashboard and
  "Upload New" while there is one; a skill has its remove button while it is in the list;
  the job cards replace the placeholders when no search is
  running; the two tailoring buttons of every card have \<open>disabled={isGenerating !== null}\<close>;
  the mail button of a card is rendered if the job has a contact address; the send button
  has \<open>disabled={isSendingMail}\<close>; each modal is rendered under its own condition.
\<close>

datatype event =
    Drop "File list"
  | UploadNew
  | ChangeFilter time_filter
  | ChangeJobType job_type
  | TypeNewSkill jsstring
  | AddSkill
  | RemoveSkill jsstring
  | OpenEditModal
  | UpdateDraft field_value
  | TypeNewSkillInModal jsstring
  | AddSkillInModal
  | SaveField
  | UndoField
  | CloseEditModal
  | RefineSearch
  | ToggleJobExpansion nat
  | ClickTailor nat kind
  | OpenEmailModal nat
  | CloseEmailModal
  | ToggleEmailOption option_id
  | ClickSend
  | Settle nat reply

definition dashboard :: "state \<Rightarrow> bool" where
  "dashboard s \<longleftrightarrow> analysis s \<noteq> None"

definition job_card :: "nat \<Rightarrow> state \<Rightarrow> bool" where
  "job_card i s \<longleftrightarrow> dashboard s \<and> \<not> isSearching s \<and> i < length (jobs s)"

definition edit_modal :: "state \<Rightarrow> bool" where
  "edit_modal s \<longleftrightarrow> isEditModalOpen s \<and> editDraft s \<noteq> None"

definition email_modal :: "state \<Rightarrow> bool" where
  "email_modal s \<longleftrightarrow> emailModalJob s \<noteq> None"

definition truthy :: "jsstring option \<Rightarrow> bool" where
  "truthy v \<longleftrightarrow> (case v of None \<Rightarrow> False | Some t \<Rightarrow> t \<noteq> [])"

definition step :: "platform \<Rightarrow> event \<Rightarrow> state \<Rightarrow> state" where
  "step P e s =
     (case e of
        Drop files \<Rightarrow> if \<not> dashboard s then onDrop files s else s
      | UploadNew \<Rightarrow> if dashboard s then upload_new s else s
      | ChangeFilter f \<Rightarrow> if dashboard s then changeFilter f s else s
      | ChangeJobType t \<Rightarrow> if dashboard s then changeJobType t s else s
      | TypeNewSkill v \<Rightarrow> if dashboard s then s\<lparr>newSkill := v\<rparr> else s
      | AddSkill \<Rightarrow> if dashboard s then handleAddSkill s else s
      | RemoveSkill v \<Rightarrow>
          if (case analysis s of None \<Rightarrow> False | Some a \<Rightarrow> v \<in> set (skills a))
          then handleRemoveSkill v s else s
      | OpenEditModal \<Rightarrow> if dashboard s then openEditModal s else s
      | UpdateDraft fv \<Rightarrow> if edit_modal s then handleUpdateDraft fv s else s
      | TypeNewSkillInModal v \<Rightarrow> if edit_modal s then s\<lparr>newSkillInModal := v\<rparr> else s
      | AddSkillInModal \<Rightarrow> if edit_modal s then addSkillInModal s else s
      | SaveField \<Rightarrow> if edit_modal s then saveField s else s
      | UndoField \<Rightarrow> if edit_modal s then undoField s else s
      | CloseEditModal \<Rightarrow> if edit_modal s then s\<lparr>isEditModalOpen := False\<rparr> else s
      | RefineSearch \<Rightarrow> if edit_modal s then handleRefineSearch s else s
      | ToggleJobExpansion i \<Rightarrow> if job_card i s then toggleJobExpansion i s else s
      | ClickTailor i k \<Rightarrow>
          if job_card i s \<and> isGenerating s = None then handleGenerateTailored (jobs s ! i) k s
          else s
      | OpenEmailModal i \<Rightarrow>
          if job_card i s \<and> truthy (contactEmail (jobs s ! i))
          then s\<lparr>emailModalJob := Some (jobs s ! i)\<rparr> else s
      | CloseEmailModal \<Rightarrow> if email_modal s then s\<lparr>emailModalJob := None\<rparr> else s
      | ToggleEmailOption i \<Rightarrow>
          if email_modal s then s\<lparr>emailOptions := toggle_option i (emailOptions s)\<rparr> else s
      | ClickSend \<Rightarrow> if email_modal s \<and> \<not> isSendingMail s then handleSendMail P s else s
      | Settle i r \<Rightarrow> settle P i r s)"

definition run :: "platform \<Rightarrow> event list \<Rightarrow> state \<Rightarrow> state" where
  "run P es s = foldl (\<lambda>s e. step P e s) s es"

text \<open>The generations in flight: the tasks that await a tailoring or a mail content.\<close>

definition is_generation :: "task \<Rightarrow> bool" where
  "is_generation t \<longleftrightarrow>
     (case t of
        Tailoring job k \<Rightarrow> True
      | MailComposing job opts text \<Rightarrow> True
      | MailTailoring job opts text sb bd \<Rightarrow> True
      | _ \<Rightarrow> False)"

definition generations_in_flight :: "state \<Rightarrow> task list" where
  "generations_in_flight s = filter is_generation (pending s)"

text \<open>Among them, those started from the tailoring buttons of the job cards.\<close>

definition is_button_generation :: "task \<Rightarrow> bool" where
  "is_button_generation t \<longleftrightarrow> (case t of Tailoring job k \<Rightarrow> True | _ \<Rightarrow> False)"

definition button_generations :: "state \<Rightarrow> task list" where
  "button_generations s = filter is_button_generation (pending s)"

text \<open>The generation key is set exactly while one of them is in flight, and only one is.\<close>

definition key_matches :: "state \<Rightarrow> bool" where
  "key_matches s \<longleftrightarrow>
     (if isGenerating s = None then button_generations s = []
      else length (button_generations s) = 1)"

section \<open>The properties as the specification words them\<close>

text \<open>
  A skill is a case-insensitive substring of a text when, both put in lower case, the text
  is some prefix, then the skill, then some suffix.
\<close>

definition ci_substring :: "platform \<Rightarrow> jsstring \<Rightarrow> jsstring \<Rightarrow> bool" where
  "ci_substring P skill text \<longleftrightarrow>
     (\<exists>pre post. toLowerCase P text = pre @ toLowerCase P skill @ post)"

text \<open>
  The file name of the specification: the label of the artifact, then the company name with
  every run of non-alphanumeric characters collapsed to one underscore.
\<close>

definition non_alnum :: "nat \<Rightarrow> bool" where
  "non_alnum c \<longleftrightarrow> \<not> is_alnum c"

definition label :: "kind \<Rightarrow> jsstring" where
  "label k = (case k of Resume \<Rightarrow> js ''Tailored_Resume_'' | CoverLetter \<Rightarrow> js ''Cover_Letter_'')"

definition artifact :: "kind \<Rightarrow> tailored \<Rightarrow> jsstring" where
  "artifact k t = (case k of Resume \<Rightarrow> tailoredResume t | CoverLetter \<Rightarrow> coverLetter t)"

definition spec_filename :: "kind \<Rightarrow> Job \<Rightarrow> jsstring" where
  "spec_filename k job = label k @ replace_runs non_alnum 95 (company job) @ js ''.pdf''"

text \<open>The calls of the profile store: a skill is typed and submitted, or removed.\<close>

datatype skill_call = addSkill jsstring | removeSkill jsstring

fun skill_calls :: "skill_call list \<Rightarrow> state \<Rightarrow> state" where
  "skill_calls [] s = s"
| "skill_calls (addSkill v # cs) s = skill_calls cs (handleAddSkill (s\<lparr>newSkill := v\<rparr>))"
| "skill_calls (removeSkill v # cs) s = skill_calls cs (handleRemoveSkill v s)"

section \<open>Example data\<close>

definition young :: Job where
  "young =
     \<lparr>title = js ''Data Engineer'', company = js ''Ernst & Young'',
      Job.location = js ''Berlin'', postedAt = js ''2 hours ago'',
      link = js ''https://jobs.example/1'', description = js ''Pipelines'',
      source = js ''LinkedIn'', isEasyApply = True, contactEmail = Some (js ''hr@ey.example'')\<rparr>"

definition acme :: Job where
  "acme =
     \<lparr>title = js ''Analyst'', company = js ''Acme'',
      Job.location = js ''Remote'', postedAt = js ''1 day ago'',
      link = js ''https://jobs.example/2'', description = js ''Reports'',
      source = js ''Indeed'', isEasyApply = False, contactEmail = Some (js ''jobs@acme.example'')\<rparr>"

definition profile :: ResumeAnalysis where
  "profile =
     \<lparr>skills = [js ''python'', js ''Leadership'', js ''SQL'', js ''python''],
      experienceLevel = js ''Senior'', suggestedRoles = [js ''Data Engineer''],
      summary = js ''Engineer'', ResumeAnalysis.location = None,
      experience = js ''Acme'', education = js ''BSc'', projects = []\<rparr>"

definition cv :: File where
  "cv = \<lparr>name = js ''cv.txt'', decoded = js ''Python and SQL''\<rparr>"

definition letters :: tailored where
  "letters = \<lparr>tailoredResume = js ''SKILLS'', coverLetter = js ''Dear team''\<rparr>"

definition greeting :: mail_content where
  "greeting = \<lparr>subject = js ''Application'', body = js ''Hello''\<rparr>"

text \<open>
  An upload that goes through: the file is dropped, the gateway structures it (with an empty
  text, so the raw text is kept), analyses it, and finds two jobs.
\<close>

definition uploaded :: "event list" where
  "uploaded =
     [Drop [cv], Settle 0 (Structured (Resolves None)),
      Settle 0 (Analyzed (Resolves (Value profile))),
      Settle 0 (Searched (Resolves (Value [young, acme])))]"

text \<open>The state that this upload leads to, as \<open>run_uploaded\<close> shows below.\<close>

definition loaded :: state where
  "loaded =
     init\<lparr>resumeText := js ''Python and SQL'',
          analysis := Some (profile\<lparr>skills := [js ''python'', js ''SQL'', js ''python'']\<rparr>),
          jobs := [young, acme]\<rparr>"

text \<open>A document of bullet lines, each \<open>- a\<close> followed by a line feed.\<close>

definition bullets :: "nat \<Rightarrow> jsstring" where
  "bullets n = concat (replicate n (js ''- a'' @ [10]))"

section \<open>Strings: auxiliary facts\<close>

lemma js_simps: "js [] = []" "js (c # cs) = of_char c # js cs"
  by (simp_all add: js_def)

lemma startsWith_iff: "startsWith s p \<longleftrightarrow> (\<exists>post. s = p @ post)"
  unfolding startsWith_def
  by (metis append_eq_conv_conj append_take_drop_id)

lemma includes_str_iff: "includes_str s p \<longleftrightarrow> (\<exists>pre post. s = pre @ p @ post)"
proof (induction s)
  case Nil
  then show ?case by simp
next
  case (Cons c s)
  show ?case
  proof
    assume "includes_str (c # s) p"
    then consider "startsWith (c # s) p" | "includes_str s p" by auto
    then show "\<exists>pre post. c # s = pre @ p @ post"
    proof cases
      case 1
      then obtain post where "c # s = p @ post" by (auto simp: startsWith_iff)
      then have "c # s = [] @ p @ post" by simp
      then show ?thesis by blast
    next
      case 2
      then obtain pre post where "s = pre @ p @ post" using Cons.IH by blast
      then have "c # s = (c # pre) @ p @ post" by simp
      then show ?thesis by blast
    qed
  next
    assume "\<exists>pre post. c # s = pre @ p @ post"
    then obtain pre post where e: "c # s = pre @ p @ post" by blast
    show "includes_str (c # s) p"
    proof (cases pre)
      case Nil
      with e have "startsWith (c # s) p" by (auto simp: startsWith_iff)
      then show ?thesis by simp
    next
      case (Cons d pre')
      with e have "s = pre' @ p @ post" by simp
      then have "includes_str s p" using Cons.IH by blast
      then show ?thesis by simp
    qed
  qed
qed

section \<open>Runs: auxiliary facts\<close>

lemma js_not_Nil: "(js (c # cs) = []) = False"
  by (simp add: js_def)

lemma run_append: "run P (es @ es') s = run P es' (run P es s)"
  by (simp add: run_def)

lemma run_Cons: "run P (e # es) s = run P es (step P e s)"
  by (simp add: run_def)

lemma run_Nil: "run P [] s = s"
  by (simp add: run_def)

lemma analyze_cv:
  "analyzeResume plain_platform (js ''Python and SQL'') (Resolves (Value profile))
     = Fulfilled (profile\<lparr>skills := [js ''python'', js ''SQL'', js ''python'']\<rparr>)"
  by (simp add: analyzeResume_def plain_platform_def profile_def js_simps startsWith_def
        ascii_lower_def is_upper_def)

lemma trim_literals:
  "trim (js ''Python and SQL'') = js ''Python and SQL''"
  "trim (js ''SQL'') = js ''SQL''"
  "trim (js '' python '') = js ''python''"
  by (simp_all add: trim_def js_simps is_ws_def)

lemma not_docx: "endsWith (js ''cv.txt'') (js ''.docx'') = False"
  by (simp add: endsWith_def startsWith_def js_simps)

lemma run_dropped:
  "run plain_platform [Drop [cv]] init
     = init\<lparr>isAnalyzing := True, pending := [Structuring (js ''Python and SQL'') T24h All]\<rparr>"
  by (simp add: run_Cons run_Nil step_def dashboard_def init_def onDrop_def cv_def not_docx
        onDrop_raw_def trim_literals await_def Let_def js_not_Nil)

lemma run_uploaded: "run plain_platform uploaded init = loaded"
  by (simp add: uploaded_def run_Cons run_Nil step_def dashboard_def init_def onDrop_def cv_def
        not_docx onDrop_raw_def trim_literals await_def settle_def resume_def
        structureResume_def onDrop_structured_def onDrop_analyzed_def analyze_cv
        handleSearch_def handleSearch_settled_def searchJobs_def loaded_def Let_def js_not_Nil)

lemma run_filter_changed:
  "run plain_platform (uploaded @ [ChangeFilter T48h]) init
     = loaded\<lparr>timeFilter := T48h, isSearching := True,
         pending := [Searching (profile\<lparr>skills := [js ''python'', js ''SQL'', js ''python'']\<rparr>)
                       T48h All]\<rparr>"
  unfolding run_append run_uploaded
  by (simp add: run_Cons run_Nil step_def dashboard_def loaded_def init_def changeFilter_def
        handleSearch_def await_def Let_def)

section \<open>Sets of skills: auxiliary facts\<close>

lemma Set_add_all_distinct: "distinct seen \<Longrightarrow> distinct (Set_add_all seen xs)"
  by (induction xs arbitrary: seen) auto

lemma Set_add_all_set: "set (Set_add_all seen xs) = set seen \<union> set xs"
  by (induction xs arbitrary: seen) auto

lemma Set_spread_distinct: "distinct (Set_spread xs)"
  by (simp add: Set_spread_def Set_add_all_distinct)

lemma Set_spread_set: "set (Set_spread xs) = set xs"
  by (simp add: Set_spread_def Set_add_all_set)

lemma handleAddSkill_analysis:
  "analysis s = Some a \<Longrightarrow>
   analysis (handleAddSkill s) =
     Some (if trim (newSkill s) = [] then a
           else a\<lparr>skills := Set_spread (skills a @ [trim (newSkill s)])\<rparr>)"
  by (simp add: handleAddSkill_def handleSearch_def await_def Let_def)

lemma handleRemoveSkill_analysis:
  "analysis s = Some a \<Longrightarrow>
   analysis (handleRemoveSkill v s) = Some (a\<lparr>skills := filter (\<lambda>x. x \<noteq> v) (skills a)\<rparr>)"
  by (simp add: handleRemoveSkill_def handleSearch_def await_def Let_def)

lemma skill_calls_distinct:
  "analysis s = Some a \<Longrightarrow> distinct (skills a) \<Longrightarrow>
   \<exists>a'. analysis (skill_calls cs s) = Some a' \<and> distinct (skills a')"
proof (induction cs arbitrary: s a)
  case Nil
  then show ?case by simp
next
  case (Cons c cs)
  show ?case
  proof (cases c)
    case (addSkill v)
    let ?s = "handleAddSkill (s\<lparr>newSkill := v\<rparr>)"
    have "analysis (s\<lparr>newSkill := v\<rparr>) = Some a" using Cons.prems by simp
    from handleAddSkill_analysis [OF this]
    obtain b where b: "analysis ?s = Some b" "distinct (skills b)"
      using Cons.prems(2) by (auto simp: Set_spread_distinct split: if_splits)
    from Cons.IH [OF b] show ?thesis using addSkill by simp
  next
    case (removeSkill v)
    let ?s = "handleRemoveSkill v s"
    from handleRemoveSkill_analysis [OF Cons.prems(1)]
    obtain b where b: "analysis ?s = Some b" "distinct (skills b)"
      using Cons.prems(2) by auto
    from Cons.IH [OF b] show ?thesis using removeSkill by simp
  qed
qed

section \<open>The skills of an analysis are in the text\<close>

text \<open>
  C4. Every skill of an analysis that \<open>analyzeResume\<close> returns is a case-insensitive
  substring of the text the analysis was made from, whatever list the gateway sent; and
  this analysis is the one the upload pipeline stores when the analysis task is resumed.
\<close>

theorem analyzeResume_skills_verbatim:
  "analyzeResume P text reply = Fulfilled a \<Longrightarrow>
   (\<forall>skill \<in> set (skills a). ci_substring P skill text)
   \<and> map_option analysis (resume P (Analyzing text tf jt) (Analyzed reply) s) = Some (Some a)"
  by (auto simp: analyzeResume_def ci_substring_def includes_str_iff Let_def resume_def
        onDrop_analyzed_def handleSearch_def await_def
        split: gateway.splits JSON_parse.splits)

theorem analyzeResume_skills_verbatim_witness:
  "analyzeResume plain_platform (js ''Python and SQL'') (Resolves (Value profile))
     = Fulfilled (profile\<lparr>skills := [js ''python'', js ''SQL'', js ''python'']\<rparr>)
   \<and> ci_substring plain_platform (js ''SQL'') (js ''Python and SQL'')"
proof -
  have h: "analyzeResume plain_platform (js ''Python and SQL'') (Resolves (Value profile))
     = Fulfilled (profile\<lparr>skills := [js ''python'', js ''SQL'', js ''python'']\<rparr>)"
    by (rule analyze_cv)
  from analyzeResume_skills_verbatim [OF h] h show ?thesis by simp
qed

section \<open>Uniqueness of skills\<close>

text \<open>
  C5, as the code has it. \<open>handleAddSkill\<close> rebuilds the list through a \<open>Set\<close> and
  \<open>handleRemoveSkill\<close> filters it: a list without duplicates stays so under any sequence of
  the two calls, and after an \<open>addSkill\<close> that takes effect the list has no duplicates
  whatever it was before. \<open>analyzeResume\<close> only filters the list of the gateway: the list of
  a fresh analysis is free of duplicates when the gateway's list is.
\<close>

theorem skills_unique_after_calls:
  "(analysis s = Some a \<and> distinct (skills a) \<and> analysis (skill_calls cs s) = Some a'
      \<longrightarrow> distinct (skills a'))
   \<and> (analysis s = Some a \<and> trim v \<noteq> []
       \<and> analysis (handleAddSkill (s\<lparr>newSkill := v\<rparr>)) = Some a'
      \<longrightarrow> distinct (skills a') \<and> set (skills a') = insert (trim v) (set (skills a)))
   \<and> (analyzeResume P content (Resolves (Value r)) = Fulfilled a' \<and> distinct (skills r)
      \<longrightarrow> distinct (skills a'))"
proof (intro conjI impI)
  assume "analysis s = Some a \<and> distinct (skills a) \<and> analysis (skill_calls cs s) = Some a'"
  then show "distinct (skills a')"
    using skill_calls_distinct [of s a cs] by auto
next
  assume h: "analysis s = Some a \<and> trim v \<noteq> []
    \<and> analysis (handleAddSkill (s\<lparr>newSkill := v\<rparr>)) = Some a'"
  then have "analysis (s\<lparr>newSkill := v\<rparr>) = Some a" by simp
  from handleAddSkill_analysis [OF this] h
  have a': "a' = a\<lparr>skills := Set_spread (skills a @ [trim v])\<rparr>" by simp
  show "distinct (skills a')" by (simp add: a' Set_spread_distinct)
  show "set (skills a') = insert (trim v) (set (skills a))"
    by (simp add: a' Set_spread_set)
next
  assume "analyzeResume P content (Resolves (Value r)) = Fulfilled a' \<and> distinct (skills r)"
  then show "distinct (skills a')"
    by (auto simp: analyzeResume_def Let_def)
qed

theorem skills_unique_after_calls_witness:
  "analysis (loaded\<lparr>analysis := Some (profile\<lparr>skills := [js ''SQL'']\<rparr>)\<rparr>)
     = Some (profile\<lparr>skills := [js ''SQL'']\<rparr>)
   \<and> distinct (skills (profile\<lparr>skills := [js ''SQL'']\<rparr>))
   \<and> analysis (skill_calls [addSkill (js '' python ''), addSkill (js ''SQL''),
                            removeSkill (js ''SQL'')]
        (loaded\<lparr>analysis := Some (profile\<lparr>skills := [js ''SQL'']\<rparr>)\<rparr>))
     = Some (profile\<lparr>skills := [js ''python'']\<rparr>)
   \<and> distinct (skills (profile\<lparr>skills := [js ''python'']\<rparr>))
   \<and> analysis loaded = Some (profile\<lparr>skills := [js ''python'', js ''SQL'', js ''python'']\<rparr>)
   \<and> trim (js ''SQL'') \<noteq> []
   \<and> analysis (handleAddSkill (loaded\<lparr>newSkill := js ''SQL''\<rparr>))
     = Some (profile\<lparr>skills := [js ''python'', js ''SQL'']\<rparr>)
   \<and> distinct (skills (profile\<lparr>skills := [js ''python'', js ''SQL'']\<rparr>))
   \<and> analyzeResume plain_platform (js ''Python and SQL'')
        (Resolves (Value (profile\<lparr>skills := [js ''SQL'', js ''Go'']\<rparr>)))
     = Fulfilled (profile\<lparr>skills := [js ''SQL'']\<rparr>)
   \<and> distinct (skills (profile\<lparr>skills := [js ''SQL'', js ''Go'']\<rparr>))"
proof -
  let ?s = "loaded\<lparr>analysis := Some (profile\<lparr>skills := [js ''SQL'']\<rparr>)\<rparr>"
  have neq: "js ''python'' \<noteq> js ''SQL''" "js ''SQL'' \<noteq> js ''python''" "js ''SQL'' \<noteq> js ''Go''"
    by (simp_all add: js_simps)
  have 1: "analysis ?s = Some (profile\<lparr>skills := [js ''SQL'']\<rparr>)" by simp
  have 2: "distinct (skills (profile\<lparr>skills := [js ''SQL'']\<rparr>))" by simp
  have 3: "analysis (skill_calls [addSkill (js '' python ''), addSkill (js ''SQL''),
                            removeSkill (js ''SQL'')] ?s)
     = Some (profile\<lparr>skills := [js ''python'']\<rparr>)"
    by (simp add: handleAddSkill_def handleRemoveSkill_def handleSearch_def await_def Let_def
          trim_literals js_not_Nil Set_spread_def neq)
  have 4: "analysis loaded = Some (profile\<lparr>skills := [js ''python'', js ''SQL'', js ''python'']\<rparr>)"
    by (simp add: loaded_def)
  have 5: "trim (js ''SQL'') \<noteq> []" by (simp add: trim_literals js_not_Nil)
  have 6: "analysis (handleAddSkill (loaded\<lparr>newSkill := js ''SQL''\<rparr>))
     = Some (profile\<lparr>skills := [js ''python'', js ''SQL'']\<rparr>)"
    by (simp add: handleAddSkill_def handleSearch_def await_def Let_def loaded_def
          trim_literals js_not_Nil Set_spread_def neq)
  have 7: "analyzeResume plain_platform (js ''Python and SQL'')
        (Resolves (Value (profile\<lparr>skills := [js ''SQL'', js ''Go'']\<rparr>)))
     = Fulfilled (profile\<lparr>skills := [js ''SQL'']\<rparr>)"
    by (simp add: analyzeResume_def plain_platform_def profile_def js_simps startsWith_def
          ascii_lower_def is_upper_def)
  have 8: "distinct (skills (profile\<lparr>skills := [js ''SQL'', js ''Go'']\<rparr>))"
    by (simp add: neq)
  from skills_unique_after_calls [where s = ?s and a = "profile\<lparr>skills := [js ''SQL'']\<rparr>"
      and cs = "[addSkill (js '' python ''), addSkill (js ''SQL''), removeSkill (js ''SQL'')]"
      and a' = "profile\<lparr>skills := [js ''python'']\<rparr>"]
    skills_unique_after_calls [where s = loaded
      and a = "profile\<lparr>skills := [js ''python'', js ''SQL'', js ''python'']\<rparr>"
      and v = "js ''SQL''" and a' = "profile\<lparr>skills := [js ''python'', js ''SQL'']\<rparr>"]
    skills_unique_after_calls [where a' = "profile\<lparr>skills := [js ''SQL'']\<rparr>"
      and P = plain_platform and content = "js ''Python and SQL''"
      and r = "profile\<lparr>skills := [js ''SQL'', js ''Go'']\<rparr>"]
    1 2 3 4 5 6 7 8
  show ?thesis by blast
qed

text \<open>
  The claim as it is worded fails. The gateway names \<open>python\<close> twice; both entries pass the
  filter, so the fresh analysis holds the skill twice, and it still does after a
  \<open>removeSkill\<close> of another skill.
\<close>

theorem skills_duplicated_counterexample:
  "map_option skills (analysis (run plain_platform uploaded init))
     = Some [js ''python'', js ''SQL'', js ''python'']
   \<and> map_option skills
        (analysis (run plain_platform (uploaded @ [RemoveSkill (js ''SQL'')]) init))
     = Some [js ''python'', js ''python'']"
  unfolding run_append run_uploaded
  by (simp add: run_Cons run_Nil step_def loaded_def init_def handleRemoveSkill_def
        handleSearch_def await_def js_simps Let_def)

section \<open>Two searches in flight\<close>

text \<open>
  C2, as the code has it. \<open>handleSearch\<close> carries no sequence number and every response that
  arrives is written to the job list: when a search A is issued before a search B and the
  response of A arrives after the response of B, the list that remains is the result of A.
\<close>

theorem search_last_resolved_wins:
  "jobs (settle P (length (pending s)) (Searched (Resolves (Value rA)))
          (settle P (Suc (length (pending s))) (Searched (Resolves (Value rB)))
             (handleSearch b fB tB (handleSearch a fA tA s)))) = rA"
  by (simp add: handleSearch_def await_def settle_def resume_def handleSearch_settled_def
        searchJobs_def nth_append)

text \<open>
  The claim as it is worded fails: after an upload the filter is changed to 48h (search A)
  and then to 72h (search B); B is answered with \<open>[acme]\<close>, then A with \<open>[young]\<close>. The
  list shown at the end is that of A.
\<close>

theorem search_supersession_counterexample:
  "jobs (run plain_platform
      (uploaded @ [ChangeFilter T48h, ChangeFilter T72h,
                   Settle 1 (Searched (Resolves (Value [acme]))),
                   Settle 0 (Searched (Resolves (Value [young])))]) init) = [young]
   \<and> [young] \<noteq> [acme]"
  unfolding run_append run_uploaded
  by (simp add: run_Cons run_Nil step_def dashboard_def loaded_def init_def changeFilter_def
        handleSearch_def await_def settle_def resume_def handleSearch_settled_def
        searchJobs_def young_def acme_def js_simps Let_def)

section \<open>A search that fails\<close>

text \<open>
  C6, as the code has it. When the gateway call of a search is rejected, \<open>handleSearch\<close> sets
  the error message and leaves the job list as it was. When the reply is not JSON,
  \<open>searchJobs\<close> catches the parse error and returns the empty list: the job list becomes
  empty and no error message is set.
\<close>

theorem search_failure:
  "i < length (pending s) \<Longrightarrow> pending s ! i = Searching a tf jt \<Longrightarrow>
   jobs (settle P i (Searched Rejects) s) = jobs s
   \<and> error (settle P i (Searched Rejects) s) = Some (js ''Failed to fetch jobs. Please try again.'')
   \<and> isSearching (settle P i (Searched Rejects) s) = False
   \<and> jobs (settle P i (Searched (Resolves SyntaxError)) s) = []
   \<and> error (settle P i (Searched (Resolves SyntaxError)) s) = error s
   \<and> isSearching (settle P i (Searched (Resolves SyntaxError)) s) = False"
  by (simp add: settle_def resume_def handleSearch_settled_def searchJobs_def)

theorem search_failure_witness:
  "0 < length (pending (run plain_platform (uploaded @ [ChangeFilter T48h]) init))
   \<and> pending (run plain_platform (uploaded @ [ChangeFilter T48h]) init) ! 0
       = Searching (profile\<lparr>skills := [js ''python'', js ''SQL'', js ''python'']\<rparr>) T48h All
   \<and> jobs (settle plain_platform 0 (Searched Rejects)
        (run plain_platform (uploaded @ [ChangeFilter T48h]) init)) = [young, acme]
   \<and> error (settle plain_platform 0 (Searched Rejects)
        (run plain_platform (uploaded @ [ChangeFilter T48h]) init))
       = Some (js ''Failed to fetch jobs. Please try again.'')
   \<and> jobs (settle plain_platform 0 (Searched (Resolves SyntaxError))
        (run plain_platform (uploaded @ [ChangeFilter T48h]) init)) = []
   \<and> error (settle plain_platform 0 (Searched (Resolves SyntaxError))
        (run plain_platform (uploaded @ [ChangeFilter T48h]) init)) = None"
proof -
  let ?s = "run plain_platform (uploaded @ [ChangeFilter T48h]) init"
  have 1: "0 < length (pending ?s)" by (simp add: run_filter_changed)
  have 2: "pending ?s ! 0
      = Searching (profile\<lparr>skills := [js ''python'', js ''SQL'', js ''python'']\<rparr>) T48h All"
    by (simp add: run_filter_changed)
  have 3: "jobs ?s = [young, acme]" "error ?s = None"
    unfolding run_filter_changed by (simp_all add: loaded_def init_def)
  from search_failure [OF 1 2, of plain_platform] 1 2 3 show ?thesis by simp
qed

text \<open>
  The claim as it is worded fails: with two jobs listed, a search whose reply cannot be
  parsed empties the list and sets no error.
\<close>

theorem search_failure_counterexample:
  "jobs (run plain_platform uploaded init) = [young, acme]
   \<and> jobs (run plain_platform
        (uploaded @ [ChangeFilter T48h, Settle 0 (Searched (Resolves SyntaxError))]) init) = []
   \<and> error (run plain_platform
        (uploaded @ [ChangeFilter T48h, Settle 0 (Searched (Resolves SyntaxError))]) init) = None"
  unfolding run_append run_uploaded
  by (simp add: run_Cons run_Nil step_def dashboard_def loaded_def init_def changeFilter_def
        handleSearch_def await_def settle_def resume_def handleSearch_settled_def
        searchJobs_def Let_def)

section \<open>A structuring that fails\<close>

text \<open>
  C7, as the code has it. When the structuring call returns no text (none, or the empty
  string), the raw text becomes the resume text, the analysis is requested for it and the
  error message is not touched. When the structuring call is rejected, \<open>onDrop\<close> sets its
  error message and stops: the resume text is not set and no analysis is requested.
\<close>

theorem structuring_failure:
  "i < length (pending s) \<Longrightarrow> pending s ! i = Structuring rawText tf jt \<Longrightarrow>
   (g = Resolves None \<or> g = Resolves (Some []) \<longrightarrow>
      resumeText (settle P i (Structured g) s) = rawText
      \<and> pending (settle P i (Structured g) s)
          = take i (pending s) @ drop (Suc i) (pending s) @ [Analyzing rawText tf jt]
      \<and> error (settle P i (Structured g) s) = error s)
   \<and> resumeText (settle P i (Structured Rejects) s) = resumeText s
   \<and> pending (settle P i (Structured Rejects) s) = take i (pending s) @ drop (Suc i) (pending s)
   \<and> isAnalyzing (settle P i (Structured Rejects) s) = False
   \<and> error (settle P i (Structured Rejects) s)
       = Some (js ''Failed to process resume. Please try a different format or a .txt file.'')"
  by (auto simp add: settle_def resume_def structureResume_def onDrop_structured_def await_def
        upload_failed_def)

theorem structuring_failure_witness:
  "0 < length (pending (run plain_platform [Drop [cv]] init))
   \<and> pending (run plain_platform [Drop [cv]] init) ! 0
       = Structuring (js ''Python and SQL'') T24h All
   \<and> resumeText (settle plain_platform 0 (Structured (Resolves None))
        (run plain_platform [Drop [cv]] init)) = js ''Python and SQL''
   \<and> pending (settle plain_platform 0 (Structured (Resolves None))
        (run plain_platform [Drop [cv]] init)) = [Analyzing (js ''Python and SQL'') T24h All]
   \<and> error (settle plain_platform 0 (Structured (Resolves None))
        (run plain_platform [Drop [cv]] init)) = None
   \<and> pending (settle plain_platform 0 (Structured Rejects)
        (run plain_platform [Drop [cv]] init)) = []"
proof -
  let ?s = "run plain_platform [Drop [cv]] init"
  have 1: "0 < length (pending ?s)" by (simp add: run_dropped)
  have 2: "pending ?s ! 0 = Structuring (js ''Python and SQL'') T24h All"
    by (simp add: run_dropped)
  have 3: "error ?s = None" "pending ?s = [Structuring (js ''Python and SQL'') T24h All]"
    unfolding run_dropped by (simp_all add: init_def)
  from structuring_failure [OF 1 2, of "Resolves None" plain_platform] 1 2 3
  show ?thesis by simp
qed

text \<open>
  The claim as it is worded fails: when the gateway rejects the structuring call, the raw
  text is not taken as the resume text, no analysis follows and the error is shown.
\<close>

theorem structuring_failure_counterexample:
  "resumeText (run plain_platform [Drop [cv], Settle 0 (Structured Rejects)] init) = []
   \<and> pending (run plain_platform [Drop [cv], Settle 0 (Structured Rejects)] init) = []
   \<and> analysis (run plain_platform [Drop [cv], Settle 0 (Structured Rejects)] init) = None
   \<and> error (run plain_platform [Drop [cv], Settle 0 (Structured Rejects)] init)
       = Some (js ''Failed to process resume. Please try a different format or a .txt file.'')"
  by (simp add: run_Cons run_Nil step_def dashboard_def init_def onDrop_def cv_def not_docx
        onDrop_raw_def trim_literals await_def settle_def resume_def structureResume_def
        onDrop_structured_def upload_failed_def Let_def js_not_Nil)

section \<open>Undo\<close>

text \<open>
  C8. With exactly one entry in the history, \<open>undoField\<close> changes nothing. With \<open>N > 1\<close>
  entries it makes entry \<open>N - 1\<close> (at index \<open>N - 2\<close>) the draft and keeps the first \<open>N - 1\<close>
  entries of the history.
\<close>

theorem undoField_bounds:
  "(length (history s) = 1 \<longrightarrow> undoField s = s)
   \<and> (1 < length (history s) \<longrightarrow>
        editDraft (undoField s) = Some (history s ! (length (history s) - 2))
        \<and> history (undoField s) = take (length (history s) - 1) (history s)
        \<and> length (history (undoField s)) = length (history s) - 1)"
  by (simp add: undoField_def butlast_conv_take)

theorem undoField_bounds_witness:
  "length (history (init\<lparr>history := [profile]\<rparr>)) = 1
   \<and> undoField (init\<lparr>history := [profile]\<rparr>) = init\<lparr>history := [profile]\<rparr>
   \<and> 1 < length (history (init\<lparr>history := [profile, profile\<lparr>summary := []\<rparr>]\<rparr>))
   \<and> editDraft (undoField (init\<lparr>history := [profile, profile\<lparr>summary := []\<rparr>]\<rparr>))
       = Some profile
   \<and> history (undoField (init\<lparr>history := [profile, profile\<lparr>summary := []\<rparr>]\<rparr>))
       = [profile]"
  using undoField_bounds [of "init\<lparr>history := [profile]\<rparr>"]
    undoField_bounds [of "init\<lparr>history := [profile, profile\<lparr>summary := []\<rparr>]\<rparr>"]
  by simp

section \<open>Starting over\<close>

text \<open>
  C10. "Upload New" empties the analysis, the job list and the resume text, and leaves
  every other cell of the state as it was: the two filters, the email options and the
  expansion state among them.
\<close>

theorem upload_new_frame:
  "analysis (upload_new s) = None \<and> jobs (upload_new s) = [] \<and> resumeText (upload_new s) = []
   \<and> timeFilter (upload_new s) = timeFilter s \<and> jobType (upload_new s) = jobType s
   \<and> emailOptions (upload_new s) = emailOptions s
   \<and> expandedJobs (upload_new s) = expandedJobs s
   \<and> isAnalyzing (upload_new s) = isAnalyzing s \<and> isSearching (upload_new s) = isSearching s
   \<and> isGenerating (upload_new s) = isGenerating s \<and> newSkill (upload_new s) = newSkill s
   \<and> newSkillInModal (upload_new s) = newSkillInModal s
   \<and> isEditModalOpen (upload_new s) = isEditModalOpen s
   \<and> editDraft (upload_new s) = editDraft s \<and> history (upload_new s) = history s
   \<and> emailModalJob (upload_new s) = emailModalJob s
   \<and> isSendingMail (upload_new s) = isSendingMail s \<and> error (upload_new s) = error s
   \<and> memo_jobType (upload_new s) = memo_jobType s \<and> pending (upload_new s) = pending s
   \<and> saved (upload_new s) = saved s \<and> href (upload_new s) = href s
   \<and> step P UploadNew s = (if analysis s = None then s else upload_new s)"
  by (simp add: upload_new_def step_def dashboard_def)

section \<open>The name of the exported file\<close>

lemma filter_dropWhile_other: "(\<And>c. Q c \<Longrightarrow> \<not> P c) \<Longrightarrow> filter Q (dropWhile P s) = filter Q s"
  by (induction s) auto

lemma replace_runs_none_left: "\<not> P sep \<Longrightarrow> c \<in> set (replace_runs P sep s) \<Longrightarrow> \<not> P c"
  by (induction P sep s rule: replace_runs.induct) (auto split: if_splits)

lemma replace_runs_keeps:
  "filter (\<lambda>c. \<not> P c \<and> c \<noteq> sep) (replace_runs P sep s) = filter (\<lambda>c. \<not> P c \<and> c \<noteq> sep) s"
proof (induction P sep s rule: replace_runs.induct)
  case (1 P sep)
  then show ?case by simp
next
  case (2 P sep c s)
  show ?case
  proof (cases "P c")
    case True
    have "filter (\<lambda>c. \<not> P c \<and> c \<noteq> sep) (dropWhile P s) = filter (\<lambda>c. \<not> P c \<and> c \<noteq> sep) s"
      by (rule filter_dropWhile_other) simp
    with True 2 show ?thesis by simp
  next
    case False
    with 2 show ?thesis by simp
  qed
qed

lemma underscore_not_ws: "\<not> is_ws 95"
  by (simp add: is_ws_def)

lemma run_snoc: "run P (es @ [e]) s = step P e (run P es s)"
  by (simp add: run_def)

lemma run_tailor_clicked:
  "run plain_platform (uploaded @ [ClickTailor 0 Resume]) init
     = loaded\<lparr>isGenerating := Some (js ''https://jobs.example/1-resume''),
              pending := [Tailoring young Resume]\<rparr>"
  unfolding run_append run_uploaded
  by (simp add: run_Cons run_Nil step_def job_card_def dashboard_def loaded_def init_def
        handleGenerateTailored_def await_def kind_name_def young_def js_simps)

lemma company_young: "company young = js ''Ernst & Young''"
  by (simp add: young_def)

lemma contact_acme: "contactEmail acme = Some (js ''jobs@acme.example'')"
  by (simp add: acme_def)

lemma young_filename:
  "replace_runs is_ws 95 (js ''Ernst & Young'') = js ''Ernst_&_Young''"
  "replace_runs non_alnum 95 (js ''Ernst & Young'') = js ''Ernst_Young''"
  by (simp_all add: js_simps is_ws_def non_alnum_def is_alnum_def is_upper_def is_lower_def
        is_digit_def)

lemma run_tailored:
  "run plain_platform
      (uploaded @ [ClickTailor 0 Resume, Settle 0 (Tailored (Resolves (Value letters)))]) init
   = loaded\<lparr>saved := [(js ''Tailored_Resume_'' @ js ''Ernst_&_Young'' @ js ''.pdf'',
                         snd (render plain_platform (tailoredResume letters)))]\<rparr>"
proof -
  have "run plain_platform
      (uploaded @ [ClickTailor 0 Resume, Settle 0 (Tailored (Resolves (Value letters)))]) init
    = step plain_platform (Settle 0 (Tailored (Resolves (Value letters))))
        (run plain_platform (uploaded @ [ClickTailor 0 Resume]) init)"
    using run_snoc [of plain_platform "uploaded @ [ClickTailor 0 Resume]"] by simp
  also have "\<dots> = loaded\<lparr>saved := [(js ''Tailored_Resume_'' @ js ''Ernst_&_Young'' @ js ''.pdf'',
                         snd (render plain_platform (tailoredResume letters)))]\<rparr>"
    unfolding run_tailor_clicked
    by (simp add: step_def settle_def resume_def generateTailoredContent_def
          handleGenerateTailored_settled_def downloadAsPDF_def loaded_def init_def
          company_young young_filename)
  finally show ?thesis .
qed

text \<open>
  The email path puts the company name into the file names as it is, white space included.
\<close>

lemma saved_finish:
  "saved (handleSendMail_finish P job opts rt sb bd info s)
     = (if attachUploadedResume opts
        then saved s @ [(js ''Original_Resume.pdf'', snd (render P rt))] else saved s)"
  by (simp add: handleSendMail_finish_def Let_def downloadAsPDF_def email_failed_def
        split: option.splits)

lemma email_path_filenames:
  "map fst (saved (handleSendMail_tailored P job opts rt sb bd (Fulfilled t) s))
     = map fst (saved s)
       @ (if attachTailoredResume opts
          then [js ''Tailored_Resume_'' @ company job @ js ''.pdf''] else [])
       @ (if attachTailoredCoverLetter opts
          then [js ''Cover_Letter_'' @ company job @ js ''.pdf''] else [])
       @ (if attachUploadedResume opts then [js ''Original_Resume.pdf''] else [])"
  by (simp add: handleSendMail_tailored_def Let_def saved_finish downloadAsPDF_def)

text \<open>
  C9, as the code has it. On the direct tailoring path a successful generation saves one
  file, named by the label of the artifact, the company name in which every run of white
  space is replaced by one underscore, and \<open>.pdf\<close>. No white space is left in that part
  of the name, and every other character of the company name is kept as it is, the
  non-alphanumeric ones too.
\<close>

theorem tailoring_filename:
  "i < length (pending s) \<Longrightarrow> pending s ! i = Tailoring job k \<Longrightarrow>
   saved (settle P i (Tailored (Resolves (Value t))) s)
     = saved s @ [(label k @ replace_runs is_ws 95 (company job) @ js ''.pdf'',
                   snd (render P (artifact k t)))]
   \<and> (\<forall>c \<in> set (replace_runs is_ws 95 (company job)). \<not> is_ws c)
   \<and> filter (\<lambda>c. \<not> is_ws c \<and> c \<noteq> 95) (replace_runs is_ws 95 (company job))
       = filter (\<lambda>c. \<not> is_ws c \<and> c \<noteq> 95) (company job)"
proof (intro conjI)
  assume "i < length (pending s)" "pending s ! i = Tailoring job k"
  then show "saved (settle P i (Tailored (Resolves (Value t))) s)
     = saved s @ [(label k @ replace_runs is_ws 95 (company job) @ js ''.pdf'',
                   snd (render P (artifact k t)))]"
    by (cases k)
       (simp_all add: settle_def resume_def generateTailoredContent_def
          handleGenerateTailored_settled_def downloadAsPDF_def label_def artifact_def)
next
  show "\<forall>c \<in> set (replace_runs is_ws 95 (company job)). \<not> is_ws c"
    using replace_runs_none_left [of is_ws 95] underscore_not_ws by blast
next
  show "filter (\<lambda>c. \<not> is_ws c \<and> c \<noteq> 95) (replace_runs is_ws 95 (company job))
       = filter (\<lambda>c. \<not> is_ws c \<and> c \<noteq> 95) (company job)"
    by (rule replace_runs_keeps)
qed

theorem tailoring_filename_witness:
  "0 < length (pending (run plain_platform (uploaded @ [ClickTailor 0 Resume]) init))
   \<and> pending (run plain_platform (uploaded @ [ClickTailor 0 Resume]) init) ! 0
       = Tailoring young Resume
   \<and> map fst (saved (settle plain_platform 0 (Tailored (Resolves (Value letters)))
        (run plain_platform (uploaded @ [ClickTailor 0 Resume]) init)))
       = [js ''Tailored_Resume_Ernst_&_Young.pdf'']"
proof -
  let ?s = "run plain_platform (uploaded @ [ClickTailor 0 Resume]) init"
  have 1: "0 < length (pending ?s)" unfolding run_tailor_clicked by simp
  have 2: "pending ?s ! 0 = Tailoring young Resume" unfolding run_tailor_clicked by simp
  have 3: "saved ?s = []" unfolding run_tailor_clicked by (simp add: loaded_def init_def)
  have 4: "company young = js ''Ernst & Young''"
    by (simp add: young_def)
  have 6: "label Resume @ js ''Ernst_&_Young'' @ js ''.pdf'' = js ''Tailored_Resume_Ernst_&_Young.pdf''"
    by (simp add: label_def js_def)
  note T = tailoring_filename [OF 1 2, of plain_platform letters]
  from T have "saved (settle plain_platform 0 (Tailored (Resolves (Value letters))) ?s)
     = saved ?s @ [(label Resume @ replace_runs is_ws 95 (company young) @ js ''.pdf'',
                   snd (render plain_platform (artifact Resume letters)))]"
    by (rule conjunct1)
  then have 7: "map fst (saved (settle plain_platform 0 (Tailored (Resolves (Value letters))) ?s))
       = [js ''Tailored_Resume_Ernst_&_Young.pdf'']"
    unfolding 3 4 young_filename 6 by simp
  from 1 2 7 show ?thesis by (intro conjI)
qed

text \<open>
  The claim as it is worded fails: for the company \<open>Ernst & Young\<close> the file is named
  \<open>Tailored_Resume_Ernst_&_Young.pdf\<close>; collapsing the run of the three non-alphanumeric
  characters between the two words would give \<open>Tailored_Resume_Ernst_Young.pdf\<close>.
\<close>

theorem tailoring_filename_counterexample:
  "map fst (saved (run plain_platform
      (uploaded @ [ClickTailor 0 Resume, Settle 0 (Tailored (Resolves (Value letters)))]) init))
     = [js ''Tailored_Resume_Ernst_&_Young.pdf'']
   \<and> spec_filename Resume young = js ''Tailored_Resume_Ernst_Young.pdf''
   \<and> js ''Tailored_Resume_Ernst_&_Young.pdf'' \<noteq> js ''Tailored_Resume_Ernst_Young.pdf''"
proof (intro conjI)
  show "map fst (saved (run plain_platform
      (uploaded @ [ClickTailor 0 Resume, Settle 0 (Tailored (Resolves (Value letters)))]) init))
     = [js ''Tailored_Resume_Ernst_&_Young.pdf'']"
    unfolding run_tailored by (simp add: js_def)
  show "spec_filename Resume young = js ''Tailored_Resume_Ernst_Young.pdf''"
    unfolding spec_filename_def company_young young_filename by (simp add: label_def js_def)
  show "js ''Tailored_Resume_Ernst_&_Young.pdf'' \<noteq> js ''Tailored_Resume_Ernst_Young.pdf''"
    by (simp add: js_def)
qed

section \<open>Generations in flight\<close>

lemma filter_without_nth:
  "i < length xs \<Longrightarrow>
   length (filter p (take i xs)) + length (filter p (drop (Suc i) xs))
     + (if p (xs ! i) then 1 else 0) = length (filter p xs)"
proof -
  assume "i < length xs"
  then have "xs = take i xs @ xs ! i # drop (Suc i) xs" by (rule id_take_nth_drop)
  then have "filter p xs = filter p (take i xs @ xs ! i # drop (Suc i) xs)" by simp
  then show ?thesis by simp
qed

lemma filter_without_other:
  "i < length xs \<Longrightarrow> \<not> p (xs ! i) \<Longrightarrow>
   filter p (take i xs) @ filter p (drop (Suc i) xs) = filter p xs"
proof -
  assume a: "i < length xs" "\<not> p (xs ! i)"
  then have "xs = take i xs @ xs ! i # drop (Suc i) xs" by (simp add: id_take_nth_drop)
  then have "filter p xs = filter p (take i xs @ xs ! i # drop (Suc i) xs)" by simp
  with a show ?thesis by simp
qed

lemma frame_upload:
  "isGenerating (onDrop_extracted tf jt g s) = isGenerating s"
  "button_generations (onDrop_extracted tf jt g s) = button_generations s"
  "isGenerating (onDrop_structured tf jt r s) = isGenerating s"
  "button_generations (onDrop_structured tf jt r s) = button_generations s"
  "isGenerating (onDrop_analyzed tf jt ra s) = isGenerating s"
  "button_generations (onDrop_analyzed tf jt ra s) = button_generations s"
  "isGenerating (handleSearch_settled rs s) = isGenerating s"
  "button_generations (handleSearch_settled rs s) = button_generations s"
  by (simp_all add: onDrop_extracted_def onDrop_structured_def onDrop_analyzed_def
        handleSearch_settled_def upload_failed_def onDrop_raw_def await_def
        button_generations_def is_button_generation_def handleSearch_def
        split: gateway.splits promise.splits)

lemma frame_finish:
  "isGenerating (handleSendMail_finish P job opts rt sb bd info s) = isGenerating s"
  "button_generations (handleSendMail_finish P job opts rt sb bd info s) = button_generations s"
  by (simp_all add: handleSendMail_finish_def Let_def button_generations_def is_button_generation_def downloadAsPDF_def
        email_failed_def split: option.splits)

lemma frame_attach:
  "isGenerating (handleSendMail_attach P job opts rt sb bd s) = isGenerating s"
  "button_generations (handleSendMail_attach P job opts rt sb bd s) = button_generations s"
  by (simp_all add: handleSendMail_attach_def handleSendMail_finish_def Let_def
        button_generations_def is_button_generation_def downloadAsPDF_def email_failed_def await_def
        split: option.splits)

lemma frame_download:
  "isGenerating (downloadAsPDF P c f s) = isGenerating s"
  "button_generations (downloadAsPDF P c f s) = button_generations s"
  by (simp_all add: downloadAsPDF_def button_generations_def is_button_generation_def)

lemma frame_email_failed:
  "isGenerating (email_failed s) = isGenerating s"
  "button_generations (email_failed s) = button_generations s"
  by (simp_all add: email_failed_def button_generations_def is_button_generation_def)

lemma frame_tailored:
  "isGenerating (handleSendMail_tailored P job opts rt sb bd r s) = isGenerating s"
  "button_generations (handleSendMail_tailored P job opts rt sb bd r s) = button_generations s"
  by (simp_all add: handleSendMail_tailored_def Let_def frame_finish frame_download
        frame_email_failed split: promise.splits)

lemma frame_composed:
  "isGenerating (handleSendMail_composed P job opts rt r s) = isGenerating s"
  "button_generations (handleSendMail_composed P job opts rt r s) = button_generations s"
  by (simp_all add: handleSendMail_composed_def frame_attach frame_email_failed
        split: promise.splits)

lemma frame_handleSendMail:
  "isGenerating (handleSendMail P s) = isGenerating s"
  "button_generations (handleSendMail P s) = button_generations s"
  by (simp_all add: handleSendMail_def Let_def frame_attach split: option.splits)
     (simp_all add: await_def button_generations_def is_button_generation_def)

lemma frame_tailor_settled:
  "isGenerating (handleGenerateTailored_settled P job k r s) = None"
  "button_generations (handleGenerateTailored_settled P job k r s) = button_generations s"
  by (simp_all add: handleGenerateTailored_settled_def button_generations_def is_button_generation_def downloadAsPDF_def
        split: promise.splits)

lemmas frames = frame_upload frame_tailored frame_composed

lemma settle_key_matches: "key_matches s \<Longrightarrow> key_matches (settle P i r s)"
proof -
  assume k: "key_matches s"
  show ?thesis
  proof (cases "i < length (pending s)")
    case False
    then show ?thesis using k by (simp add: settle_def)
  next
    case True
    let ?s0 = "s\<lparr>pending := take i (pending s) @ drop (Suc i) (pending s)\<rparr>"
    have g0: "isGenerating ?s0 = isGenerating s" by simp
    show ?thesis
    proof (cases "resume P (pending s ! i) r ?s0")
      case None
      then show ?thesis using k True by (simp add: settle_def)
    next
      case (Some s')
      then have eq: "settle P i r s = s'" using True by (simp add: settle_def)
      show ?thesis
      proof (cases "is_button_generation (pending s ! i)")
        case False
        then have b0: "button_generations ?s0 = button_generations s"
          using True by (simp add: button_generations_def filter_without_other)
        have "isGenerating s' = isGenerating ?s0 \<and> button_generations s' = button_generations ?s0"
          using Some False
          by (auto simp: resume_def frames is_button_generation_def
                split: task.splits reply.splits)
        then show ?thesis using k b0 g0 eq by (simp add: key_matches_def)
      next
        case isT: True
        then obtain job kd where t: "pending s ! i = Tailoring job kd"
          by (auto simp: is_button_generation_def split: task.splits)
        have "length (button_generations ?s0) + 1 = length (button_generations s)"
          using filter_without_nth [OF True, of is_button_generation] isT
          by (simp add: button_generations_def)
        moreover have "length (button_generations s) \<le> 1"
          using k by (simp add: key_matches_def split: if_splits)
        ultimately have "length (button_generations ?s0) = 0" by linarith
        then have b0: "button_generations ?s0 = []" by simp
        have "isGenerating s' = None \<and> button_generations s' = button_generations ?s0"
          using Some t
          by (auto simp: resume_def frame_tailor_settled split: reply.splits)
        then show ?thesis using b0 eq by (simp add: key_matches_def)
      qed
    qed
  qed
qed

lemma step_key_matches: "key_matches s \<Longrightarrow> key_matches (step P e s)"
proof (cases e)
  case (Settle i r)
  assume "key_matches s"
  then show ?thesis using Settle by (simp add: step_def settle_key_matches)
next
  case (ClickTailor i k)
  assume "key_matches s"
  then show ?thesis using ClickTailor
    by (auto simp: step_def handleGenerateTailored_def await_def key_matches_def
          button_generations_def is_button_generation_def split: if_splits)
next
  case ClickSend
  assume "key_matches s"
  then show ?thesis using ClickSend
    by (simp add: step_def key_matches_def frame_handleSendMail)
qed (auto simp: step_def key_matches_def button_generations_def is_button_generation_def onDrop_def Let_def
       onDrop_raw_def upload_failed_def await_def upload_new_def changeFilter_def
       changeJobType_def handleSearch_def handleAddSkill_def handleRemoveSkill_def
       openEditModal_def handleUpdateDraft_def addSkillInModal_def saveField_def
       undoField_def handleRefineSearch_def toggleJobExpansion_def
       split: list.splits option.splits)

lemma run_key_matches: "key_matches s \<Longrightarrow> key_matches (run P es s)"
  by (induction es arbitrary: s) (simp_all add: run_Nil run_Cons step_key_matches)

lemma init_key_matches: "key_matches init"
  by (simp add: key_matches_def init_def button_generations_def is_button_generation_def)

lemma key_await: "await t (s\<lparr>isGenerating := key\<rparr>) = (await t s)\<lparr>isGenerating := key\<rparr>"
  by (simp add: await_def)

lemma key_finish:
  "handleSendMail_finish P job opts rt sb bd info (s\<lparr>isGenerating := key\<rparr>)
     = (handleSendMail_finish P job opts rt sb bd info s)\<lparr>isGenerating := key\<rparr>"
  by (simp add: handleSendMail_finish_def Let_def downloadAsPDF_def email_failed_def
        split: option.splits)

lemma key_attach:
  "handleSendMail_attach P job opts rt sb bd (s\<lparr>isGenerating := key\<rparr>)
     = (handleSendMail_attach P job opts rt sb bd s)\<lparr>isGenerating := key\<rparr>"
  by (simp add: handleSendMail_attach_def key_finish key_await)

lemma key_handleSendMail:
  "handleSendMail P (s\<lparr>isGenerating := key\<rparr>) = (handleSendMail P s)\<lparr>isGenerating := key\<rparr>"
proof (cases "emailModalJob s")
  case None
  then show ?thesis by (simp add: handleSendMail_def)
next
  case (Some job)
  have e: "(s\<lparr>isGenerating := key\<rparr>)\<lparr>isSendingMail := True\<rparr>
      = (s\<lparr>isSendingMail := True\<rparr>)\<lparr>isGenerating := key\<rparr>"
    by simp
  have f: "emailModalJob (s\<lparr>isGenerating := key\<rparr>) = Some job"
    "emailOptions (s\<lparr>isGenerating := key\<rparr>) = emailOptions s"
    "resumeText (s\<lparr>isGenerating := key\<rparr>) = resumeText s"
    using Some by simp_all
  show ?thesis
    unfolding handleSendMail_def Let_def f Some option.case e key_attach key_await
    by (rule if_distrib [symmetric])
qed

lemma run_mail_opened:
  "run plain_platform (uploaded @ [ClickTailor 0 Resume, OpenEmailModal 1]) init
     = loaded\<lparr>isGenerating := Some (js ''https://jobs.example/1-resume''),
              emailModalJob := Some acme, pending := [Tailoring young Resume]\<rparr>"
proof -
  have "run plain_platform (uploaded @ [ClickTailor 0 Resume, OpenEmailModal 1]) init
      = step plain_platform (OpenEmailModal 1)
          (run plain_platform (uploaded @ [ClickTailor 0 Resume]) init)"
    using run_snoc [of plain_platform "uploaded @ [ClickTailor 0 Resume]"] by simp
  also have "\<dots> = loaded\<lparr>isGenerating := Some (js ''https://jobs.example/1-resume''),
              emailModalJob := Some acme, pending := [Tailoring young Resume]\<rparr>"
    unfolding run_tailor_clicked
    by (simp add: step_def job_card_def dashboard_def truthy_def loaded_def init_def
          contact_acme js_not_Nil)
  finally show ?thesis .
qed

lemma run_mail_sent:
  "run plain_platform (uploaded @ [ClickTailor 0 Resume, OpenEmailModal 1, ClickSend]) init
     = loaded\<lparr>isGenerating := Some (js ''https://jobs.example/1-resume''),
              emailModalJob := Some acme, isSendingMail := True,
              pending := [Tailoring young Resume,
                          MailComposing acme (emailOptions init) (js ''Python and SQL'')]\<rparr>"
proof -
  have "run plain_platform (uploaded @ [ClickTailor 0 Resume, OpenEmailModal 1, ClickSend]) init
      = step plain_platform ClickSend
          (run plain_platform (uploaded @ [ClickTailor 0 Resume, OpenEmailModal 1]) init)"
    using run_snoc [of plain_platform "uploaded @ [ClickTailor 0 Resume, OpenEmailModal 1]"]
    by simp
  also have "\<dots> = loaded\<lparr>isGenerating := Some (js ''https://jobs.example/1-resume''),
              emailModalJob := Some acme, isSendingMail := True,
              pending := [Tailoring young Resume,
                          MailComposing acme (emailOptions init) (js ''Python and SQL'')]\<rparr>"
    unfolding run_mail_opened
    by (simp add: step_def email_modal_def loaded_def init_def handleSendMail_def await_def
          Let_def)
  finally show ?thesis .
qed

lemma run_mail_tailoring:
  "run plain_platform
     (uploaded @ [ClickTailor 0 Resume, OpenEmailModal 1, ClickSend,
                  Settle 1 (Composed (Resolves (Value greeting)))]) init
   = loaded\<lparr>isGenerating := Some (js ''https://jobs.example/1-resume''),
            emailModalJob := Some acme, isSendingMail := True,
            pending := [Tailoring young Resume,
                        MailTailoring acme (emailOptions init) (js ''Python and SQL'')
                          (js ''Application'') (js ''Hello'')]\<rparr>"
proof -
  have "run plain_platform
     (uploaded @ [ClickTailor 0 Resume, OpenEmailModal 1, ClickSend,
                  Settle 1 (Composed (Resolves (Value greeting)))]) init
    = step plain_platform (Settle 1 (Composed (Resolves (Value greeting))))
        (run plain_platform (uploaded @ [ClickTailor 0 Resume, OpenEmailModal 1, ClickSend])
           init)"
    using run_snoc
      [of plain_platform "uploaded @ [ClickTailor 0 Resume, OpenEmailModal 1, ClickSend]"]
    by simp
  also have "\<dots> = loaded\<lparr>isGenerating := Some (js ''https://jobs.example/1-resume''),
            emailModalJob := Some acme, isSendingMail := True,
            pending := [Tailoring young Resume,
                        MailTailoring acme (emailOptions init) (js ''Python and SQL'')
                          (js ''Application'') (js ''Hello'')]\<rparr>"
    unfolding run_mail_sent
    by (simp add: step_def settle_def resume_def generateEmailContent_def
          handleSendMail_composed_def handleSendMail_attach_def await_def loaded_def init_def
          greeting_def)
  finally show ?thesis .
qed

text \<open>
  C1, as the code has it. The generation key guards the tailoring buttons of the job cards
  and nothing else. In every state that the application reaches, at most one generation
  started from these buttons is in flight, and the key is set exactly while there is one;
  a click on a tailoring button while the key is set changes nothing; when the generation
  completes, with a result or with a failure, the key is cleared; and a click while the key
  is clear sets it and starts a generation. \<open>handleSendMail\<close> neither reads nor writes the
  key: it does the same whatever the key holds.
\<close>

theorem tailoring_button_exclusion:
  "length (button_generations (run P es init)) \<le> 1
   \<and> (isGenerating (run P es init) = None) = (button_generations (run P es init) = [])
   \<and> (isGenerating s \<noteq> None \<longrightarrow> step P (ClickTailor i k) s = s)
   \<and> (j < length (pending s) \<and> pending s ! j = Tailoring job k \<longrightarrow>
        isGenerating (settle P j (Tailored g) s) = None)
   \<and> (job_card i s \<and> isGenerating s = None \<longrightarrow>
        isGenerating (step P (ClickTailor i k) s) = Some (link (jobs s ! i) @ js ''-'' @ kind_name k)
        \<and> pending (step P (ClickTailor i k) s) = pending s @ [Tailoring (jobs s ! i) k])
   \<and> handleSendMail P (s\<lparr>isGenerating := key\<rparr>) = (handleSendMail P s)\<lparr>isGenerating := key\<rparr>"
proof -
  have inv: "key_matches (run P es init)"
    by (rule run_key_matches) (rule init_key_matches)
  have 1: "length (button_generations (run P es init)) \<le> 1"
    using inv by (simp add: key_matches_def split: if_splits)
  have 2: "(isGenerating (run P es init) = None) = (button_generations (run P es init) = [])"
    using inv by (auto simp: key_matches_def split: if_splits)
  have 3: "isGenerating s \<noteq> None \<longrightarrow> step P (ClickTailor i k) s = s"
    by (simp add: step_def)
  have 4: "j < length (pending s) \<and> pending s ! j = Tailoring job k \<longrightarrow>
        isGenerating (settle P j (Tailored g) s) = None"
    by (simp add: settle_def resume_def frame_tailor_settled)
  have 5: "job_card i s \<and> isGenerating s = None \<longrightarrow>
        isGenerating (step P (ClickTailor i k) s) = Some (link (jobs s ! i) @ js ''-'' @ kind_name k)
        \<and> pending (step P (ClickTailor i k) s) = pending s @ [Tailoring (jobs s ! i) k]"
    by (simp add: step_def handleGenerateTailored_def await_def)
  from 1 2 3 4 5 key_handleSendMail show ?thesis by blast
qed

theorem tailoring_button_exclusion_witness:
  "isGenerating (run plain_platform (uploaded @ [ClickTailor 0 Resume]) init) \<noteq> None
   \<and> step plain_platform (ClickTailor 1 CoverLetter)
        (run plain_platform (uploaded @ [ClickTailor 0 Resume]) init)
       = run plain_platform (uploaded @ [ClickTailor 0 Resume]) init
   \<and> 0 < length (pending (run plain_platform (uploaded @ [ClickTailor 0 Resume]) init))
   \<and> pending (run plain_platform (uploaded @ [ClickTailor 0 Resume]) init) ! 0
       = Tailoring young Resume
   \<and> isGenerating (settle plain_platform 0 (Tailored Rejects)
        (run plain_platform (uploaded @ [ClickTailor 0 Resume]) init)) = None
   \<and> job_card 1 loaded \<and> isGenerating loaded = None
   \<and> pending (step plain_platform (ClickTailor 1 CoverLetter) loaded)
       = [Tailoring acme CoverLetter]"
proof -
  let ?s = "run plain_platform (uploaded @ [ClickTailor 0 Resume]) init"
  have 1: "isGenerating ?s \<noteq> None" unfolding run_tailor_clicked by simp
  have 2: "0 < length (pending ?s) \<and> pending ?s ! 0 = Tailoring young Resume"
    unfolding run_tailor_clicked by simp
  have 3: "job_card 1 loaded \<and> isGenerating loaded = None"
    by (simp add: job_card_def dashboard_def loaded_def init_def)
  have 4: "pending loaded = []" "jobs loaded ! 1 = acme" by (simp_all add: loaded_def init_def)
  note T1 = tailoring_button_exclusion [where s = ?s and i = 1 and k = CoverLetter
      and P = plain_platform and j = 0 and job = young]
  note T2 = tailoring_button_exclusion [where s = ?s and k = Resume
      and P = plain_platform and j = 0 and job = young and g = Rejects]
  note T3 = tailoring_button_exclusion [where s = loaded and i = 1 and k = CoverLetter
      and P = plain_platform]
  from T1 1 have a: "step plain_platform (ClickTailor 1 CoverLetter) ?s = ?s" by blast
  from T2 2 have b: "isGenerating (settle plain_platform 0 (Tailored Rejects) ?s) = None"
    by blast
  from T3 3 have "pending (step plain_platform (ClickTailor 1 CoverLetter) loaded)
      = pending loaded @ [Tailoring (jobs loaded ! 1) CoverLetter]" by blast
  with 4 have c: "pending (step plain_platform (ClickTailor 1 CoverLetter) loaded)
       = [Tailoring acme CoverLetter]" by simp
  from 1 a 2 b 3 c show ?thesis by simp
qed

text \<open>
  The claim as it is worded fails: while the resume tailored for the first job is being
  generated, the email for the second job is sent; its mail content arrives and its
  tailoring call is made. Two generations are then in flight.
\<close>

theorem generation_exclusion_counterexample:
  "generations_in_flight (run plain_platform
     (uploaded @ [ClickTailor 0 Resume, OpenEmailModal 1, ClickSend,
                  Settle 1 (Composed (Resolves (Value greeting)))]) init)
   = [Tailoring young Resume,
      MailTailoring acme (emailOptions init) (js ''Python and SQL'')
        (js ''Application'') (js ''Hello'')]"
  unfolding run_mail_tailoring
  by (simp add: generations_in_flight_def is_generation_def)

section \<open>Pagination\<close>

lemma split_lines_not_Nil: "split_lines s \<noteq> []"
  by (induction s) (auto split: list.splits)

lemma split_lines_line: "10 \<notin> set l \<Longrightarrow> split_lines (l @ 10 # s) = l # split_lines s"
  by (induction l) (auto split: list.splits simp: split_lines_not_Nil)

lemma bullet_literal: "js ''- a'' = [45, 32, 97]" "js ''a'' = [97]"
  by (simp_all add: js_simps)

lemma split_lines_bullets: "split_lines (bullets n) = replicate n (js ''- a'') @ [[]]"
proof (induction n)
  case 0
  then show ?case by (simp add: bullets_def)
next
  case (Suc n)
  have "bullets (Suc n) = js ''- a'' @ 10 # bullets n" by (simp add: bullets_def)
  moreover have "10 \<notin> set (js ''- a'')" by (simp add: bullet_literal)
  ultimately show ?case using Suc by (simp add: split_lines_line)
qed

lemma bullet_line_class:
  "trim (js ''- a'') = js ''- a''" "isHeader (js ''- a'') = False" "isBullet (js ''- a'') = True"
  "strip_bullet (js ''- a'') = js ''a''"
  by (simp_all add: bullet_literal trim_def is_ws_def isHeader_def is_upper_def startsWith_def
        header_keywords_def js_simps isBullet_def strip_bullet_def)

lemma render_bullet:
  "render_line P (y, doc) (js ''- a'') =
     (y + of_nat (length (splitTextToSize P BulletStyle (js ''a'') (pageWidth P - margin * 2 - 5)))
          * (11 / 2),
      doc @ [Text BulletStyle [[8226]] (margin + 2) y,
             Text BulletStyle (splitTextToSize P BulletStyle (js ''a'') (pageWidth P - margin * 2 - 5))
               (margin + 7) y])"
  by (simp add: render_line_def bullet_line_class Let_def js_not_Nil)

lemma render_blank: "render_line P (y, doc) [] = (y + 4, doc)"
  by (simp add: render_line_def trim_def)

lemma bullets_no_page:
  "AddPage \<notin> set doc \<Longrightarrow>
   AddPage \<notin> set (snd (foldl (render_line P) (y, doc) (replicate n (js ''- a''))))"
  by (induction n arbitrary: y doc) (simp_all add: render_bullet)

lemma bullets_keep:
  "x \<in> set doc \<Longrightarrow> x \<in> set (snd (foldl (render_line P) (y, doc) (replicate n (js ''- a''))))"
  by (induction n arbitrary: y doc) (simp_all add: render_bullet)

lemma plain_bullet:
  "render_line plain_platform (y, doc) (js ''- a'') =
     (y + 11 / 2, doc @ [Text BulletStyle [[8226]] 22 y, Text BulletStyle [js ''a''] 27 y])"
  by (simp add: render_bullet plain_platform_def margin_def)

lemma plain_bullets_cursor:
  "fst (foldl (render_line plain_platform) (y, doc) (replicate n (js ''- a'')))
     = y + of_nat n * (11 / 2)"
  by (induction n arbitrary: y doc) (simp_all add: plain_bullet algebra_simps)

lemma plain_bullets_drawn:
  "i < n \<Longrightarrow>
   Text BulletStyle [js ''a''] 27 (y + of_nat i * (11 / 2))
     \<in> set (snd (foldl (render_line plain_platform) (y, doc) (replicate n (js ''- a''))))"
proof (induction n arbitrary: y doc i)
  case 0
  then show ?case by simp
next
  case (Suc n)
  show ?case
  proof (cases i)
    case 0
    then show ?thesis by (simp add: plain_bullet bullets_keep)
  next
    case (Suc i')
    then have "i' < n" using Suc.prems by simp
    have eq: "y + 11 / 2 + of_nat i' * (11 / 2) = y + of_nat i * (11 / 2)"
      using Suc by (simp add: algebra_simps)
    have "foldl (render_line plain_platform) (y, doc) (replicate (Suc n) (js ''- a''))
        = foldl (render_line plain_platform)
            (y + 11 / 2, doc @ [Text BulletStyle [[8226]] 22 y, Text BulletStyle [js ''a''] 27 y])
            (replicate n (js ''- a''))"
      by (simp add: plain_bullet)
    with Suc.IH [OF \<open>i' < n\<close>, of "y + 11 / 2"
        "doc @ [Text BulletStyle [[8226]] 22 y, Text BulletStyle [js ''a''] 27 y]"]
    show ?thesis unfolding eq by simp
  qed
qed

lemma render_bullets:
  "render P (bullets n)
     = render_line P (foldl (render_line P) (20, []) (replicate n (js ''- a''))) []"
  by (simp add: render_def split_lines_bullets)

lemma body_line_page_break:
  "trim l \<noteq> [] \<Longrightarrow> \<not> isHeader (trim l) \<Longrightarrow> \<not> isBullet (trim l) \<Longrightarrow>
   y + of_nat (length (splitTextToSize P (if isSubHeader (trim l) then SubHeaderStyle else BodyStyle)
                         (trim l) (pageWidth P - margin * 2))) * 5 > 275 \<Longrightarrow>
   \<exists>st ls. snd (render_line P (y, doc) l) = doc @ [AddPage, Text st ls margin 20]"
  by (simp add: render_line_def Let_def)

text \<open>
  C3. The test for the bottom margin is made for body and sub-header lines only
  (\<open>body_line_page_break\<close>). A document of bullet lines never gets a second page, on any
  platform; with fifty bullets of one line each, the last one is drawn at 289.5, below the
  margin of 275, and the cursor ends at 299.
\<close>

theorem bullets_overflow:
  "AddPage \<notin> set (snd (render P (bullets n)))
   \<and> Text BulletStyle [js ''a''] 27 (579 / 2) \<in> set (snd (render plain_platform (bullets 50)))
   \<and> fst (render plain_platform (bullets 50)) = 299"
proof (intro conjI)
  obtain y doc where f: "foldl (render_line P) (20, []) (replicate n (js ''- a'')) = (y, doc)"
    by (cases "foldl (render_line P) (20, []) (replicate n (js ''- a''))")
  have "AddPage \<notin> set (snd (foldl (render_line P) (20, []) (replicate n (js ''- a''))))"
    by (rule bullets_no_page) simp
  then show "AddPage \<notin> set (snd (render P (bullets n)))"
    by (simp add: render_bullets f render_blank)
next
  obtain y doc where
    f: "foldl (render_line plain_platform) (20, []) (replicate 50 (js ''- a'')) = (y, doc)"
    by (cases "foldl (render_line plain_platform) (20, []) (replicate 50 (js ''- a''))")
  have "Text BulletStyle [js ''a''] 27 (20 + of_nat 49 * (11 / 2))
     \<in> set (snd (foldl (render_line plain_platform) (20, []) (replicate 50 (js ''- a''))))"
    by (rule plain_bullets_drawn) simp
  then show "Text BulletStyle [js ''a''] 27 (579 / 2)
      \<in> set (snd (render plain_platform (bullets 50)))"
    by (simp add: render_bullets f render_blank)
next
  obtain y doc where
    f: "foldl (render_line plain_platform) (20, []) (replicate 50 (js ''- a'')) = (y, doc)"
    by (cases "foldl (render_line plain_platform) (20, []) (replicate 50 (js ''- a''))")
  have "fst (foldl (render_line plain_platform) (20, []) (replicate 50 (js ''- a'')))
      = 20 + of_nat 50 * (11 / 2)"
    by (rule plain_bullets_cursor)
  then show "fst (render plain_platform (bullets 50)) = 299"
    by (simp add: render_bullets f render_blank)
qed

end
